theory Spec2Isabelle
  imports Main
begin

section \<open>Birthday reminder bot: calendar utility, job store and reminder orchestration\<close>

text \<open>
  The development follows \<^verbatim>\<open>main.py\<close>. The program parses the stored texts
  (\<^verbatim>\<open>strptime(birthdate_str, '%d.%m.%Y')\<close>, \<^verbatim>\<open>map(int, reminder_time.split(':'))\<close>)
  with library routines; the embedding starts from their results: a birthdate is the
  \<^verbatim>\<open>datetime\<close> that \<^verbatim>\<open>strptime\<close> returns and a reminder time is the pair
  (hour, minute) of integers.
\<close>

subsection \<open>Errors\<close>

datatype error = ValueError | OverflowError | ConflictingIdError | JobLookupError

subsection \<open>Calendar dates\<close>

text \<open>
  A \<^verbatim>\<open>datetime\<close> as the library keeps it: its calendar and clock fields. Every datetime
  the program compares carries the same \<^verbatim>\<open>tzinfo\<close> object (\<^verbatim>\<open>MOSCOW_TZ\<close>), and the
  library then compares the wall-clock fields, so the record has no \<^verbatim>\<open>tzinfo\<close> field.
\<close>

record datetime =
  year :: int
  month :: int
  day :: int
  hour :: int
  minute :: int
  second :: int
  microsecond :: int

definition MAXYEAR :: int where
  "MAXYEAR = 9999"

definition is_leap :: "int \<Rightarrow> bool" where
  "is_leap y = (y mod 4 = 0 \<and> (y mod 100 \<noteq> 0 \<or> y mod 400 = 0))"

definition DAYS_IN_MONTH :: "int list" where
  "DAYS_IN_MONTH = [-1, 31, 28, 31, 30, 31, 30, 31, 31, 30, 31, 30, 31]"

definition DAYS_BEFORE_MONTH :: "int list" where
  "DAYS_BEFORE_MONTH = [-1, 0, 31, 59, 90, 120, 151, 181, 212, 243, 273, 304, 334]"

definition days_in_month :: "int \<Rightarrow> int \<Rightarrow> int" where
  "days_in_month y m = (if m = 2 \<and> is_leap y then 29 else DAYS_IN_MONTH ! nat m)"

definition days_before_year :: "int \<Rightarrow> int" where
  "days_before_year y = (y - 1) * 365 + (y - 1) div 4 - (y - 1) div 100 + (y - 1) div 400"

definition days_before_month :: "int \<Rightarrow> int \<Rightarrow> int" where
  "days_before_month y m = DAYS_BEFORE_MONTH ! nat m + (if m > 2 \<and> is_leap y then 1 else 0)"

definition ymd2ord :: "int \<Rightarrow> int \<Rightarrow> int \<Rightarrow> int" where
  "ymd2ord y m d = days_before_year y + days_before_month y m + d"

text \<open>
  The checks of the \<^verbatim>\<open>datetime\<close> constructor, which \<^verbatim>\<open>replace\<close> runs on the
  updated fields; each failed check raises \<^verbatim>\<open>ValueError\<close>.
\<close>

definition dt_check :: "datetime \<Rightarrow> error + datetime" where
  "dt_check d =
     (if 1 \<le> year d \<and> year d \<le> MAXYEAR
         \<and> 1 \<le> month d \<and> month d \<le> 12
         \<and> 1 \<le> day d \<and> day d \<le> days_in_month (year d) (month d)
         \<and> 0 \<le> hour d \<and> hour d \<le> 23
         \<and> 0 \<le> minute d \<and> minute d \<le> 59
         \<and> 0 \<le> second d \<and> second d \<le> 59
         \<and> 0 \<le> microsecond d \<and> microsecond d \<le> 999999
      then Inr d else Inl ValueError)"

text \<open>Comparison of two datetimes with the same \<^verbatim>\<open>tzinfo\<close>: the field tuples, in order.\<close>

fun lex_less :: "int list \<Rightarrow> int list \<Rightarrow> bool" where
  "lex_less (x # xs) (y # ys) = (x < y \<or> (x = y \<and> lex_less xs ys))"
| "lex_less [] (y # ys) = True"
| "lex_less xs [] = False"

definition dt_fields :: "datetime \<Rightarrow> int list" where
  "dt_fields d = [year d, month d, day d, hour d, minute d, second d, microsecond d]"

definition dt_lt :: "datetime \<Rightarrow> datetime \<Rightarrow> bool" where
  "dt_lt a b = lex_less (dt_fields a) (dt_fields b)"

subsection \<open>Next occurrence of a birthday\<close>

text \<open>
  \<^verbatim>\<open>get_next_birthday\<close>; the reading of the clock (\<^verbatim>\<open>get_moscow_now()\<close>) is the
  argument \<open>now\<close>.
\<close>

definition get_next_birthday :: "datetime \<Rightarrow> datetime \<Rightarrow> int \<Rightarrow> int \<Rightarrow> error + datetime" where
  "get_next_birthday now birthdate h mi =
     (case dt_check (birthdate\<lparr>year := year now, hour := h, minute := mi, second := 0\<rparr>) of
        Inl e \<Rightarrow> Inl e
      | Inr this_year_birth \<Rightarrow>
          if dt_lt this_year_birth now
          then dt_check (this_year_birth\<lparr>year := year now + 1\<rparr>)
          else Inr this_year_birth)"

text \<open>
  The annual occurrence of a birthday in year \<open>y\<close> at the reminder time: the instant the
  claims speak about, when its calendar date exists.
\<close>

definition occurrence :: "datetime \<Rightarrow> int \<Rightarrow> int \<Rightarrow> int \<Rightarrow> error + datetime" where
  "occurrence birthdate h mi y =
     dt_check (birthdate\<lparr>year := y, hour := h, minute := mi, second := 0\<rparr>)"

subsection \<open>Positions on the timeline\<close>

text \<open>
  The program shifts datetimes by a \<^verbatim>\<open>timedelta\<close> and converts them to UTC only to
  hand them to a \<^verbatim>\<open>DateTrigger\<close>; their calendar fields are never read again. The
  library does this arithmetic on the day ordinal (\<^verbatim>\<open>toordinal()\<close>) and the time of
  day, so a shifted datetime is kept as its position on the timeline, in microseconds, with
  day 1 the first of January of year 1. A result whose day ordinal leaves
  \<open>1 .. MAXORDINAL\<close> raises \<^verbatim>\<open>OverflowError\<close>.
\<close>

definition DAY_US :: int where
  "DAY_US = 86400000000"

definition MAXORDINAL :: int where
  "MAXORDINAL = 3652059"

definition timestamp :: "datetime \<Rightarrow> int" where
  "timestamp d =
     (((ymd2ord (year d) (month d) (day d) * 24 + hour d) * 60 + minute d) * 60 + second d)
       * 1000000 + microsecond d"

text \<open>\<^verbatim>\<open>timedelta(days=.., seconds=..)\<close>, in microseconds.\<close>

definition timedelta :: "int \<Rightarrow> int \<Rightarrow> int" where
  "timedelta days seconds = (days * 86400 + seconds) * 1000000"

definition dt_add :: "int \<Rightarrow> int \<Rightarrow> error + int" where
  "dt_add t delta =
     (let r = t + delta
      in if 0 < r div DAY_US \<and> r div DAY_US \<le> MAXORDINAL then Inr r else Inl OverflowError)"

definition dt_sub :: "int \<Rightarrow> int \<Rightarrow> error + int" where
  "dt_sub t delta = dt_add t (- delta)"

text \<open>
  \<^verbatim>\<open>MOSCOW_TZ = ZoneInfo("Europe/Moscow")\<close>: the zone has been at UTC+3 without
  daylight saving since 26 October 2014, which covers every reading of the clock the
  program can take. \<^verbatim>\<open>astimezone(ZoneInfo("UTC"))\<close> subtracts the offset.
\<close>

definition MOSCOW_UTCOFFSET :: int where
  "MOSCOW_UTCOFFSET = timedelta 0 10800"

definition astimezone_utc :: "int \<Rightarrow> error + int" where
  "astimezone_utc t = dt_sub t MOSCOW_UTCOFFSET"

text \<open>The position in UTC of a Moscow wall-clock datetime.\<close>

definition utc_instant :: "datetime \<Rightarrow> int" where
  "utc_instant d = timestamp d - MOSCOW_UTCOFFSET"

subsection \<open>The record store\<close>

text \<open>
  One row of the table \<^verbatim>\<open>birthdays\<close>. The boolean columns hold 0 or 1; the program
  tests them with \<^verbatim>\<open>if remind_3d:\<close> and \<^verbatim>\<open>if r3d == 0:\<close>.
\<close>

record birthday_row =
  user_id :: int
  chat_id :: int
  name :: string
  birthdate :: datetime
  description :: "string option"
  telegram_username :: "string option"
  reminder_time :: "int \<times> int"
  remind_3_days :: int
  remind_1_day :: int
  remind_day :: int

subsection \<open>Jobs and the scheduler\<close>

text \<open>
  The texts handed to \<^verbatim>\<open>bot.send_message\<close>, by the place that builds them: the two
  reminders, the birthday notification with its optional profile line, and the
  congratulation, which is what \<^verbatim>\<open>generate_congrats(name, birthdate_str, description)\<close>
  composes.
\<close>

datatype message_text =
    ReminderIn3Days string
  | ReminderTomorrow string
  | BirthdayToday string "string option"
  | Congrats string datetime "string option"

text \<open>The callable of a job with its \<^verbatim>\<open>args\<close>.\<close>

datatype job_call =
    Call_send_reminder int message_text
  | Call_send_birthday_notification int string "string option"
  | Call_send_congrats_message int string datetime "string option"
  | Call_schedule_reminders string datetime int "int \<times> int" "string option"

record job =
  run_date :: int
  func :: job_call

text \<open>
  The state the handlers and the jobs work on: the table, the job store of the
  \<^verbatim>\<open>AsyncIOScheduler\<close> (a dictionary from job id to job) and the messages sent so far.
\<close>

record bot_state =
  db :: "birthday_row list"
  jobs :: "string \<rightharpoonup> job"
  sent :: "(int \<times> message_text) list"

text \<open>
  \<^verbatim>\<open>scheduler.add_job(func, DateTrigger(run_date=..), id=job_id, args=..)\<close>. The program
  never passes \<^verbatim>\<open>replace_existing\<close>, whose default is \<^verbatim>\<open>False\<close>: the job store of the
  running scheduler then rejects an id it already holds with \<^verbatim>\<open>ConflictingIdError\<close>.
  \<^verbatim>\<open>scheduler.remove_job(job_id)\<close> raises \<^verbatim>\<open>JobLookupError\<close> when the id is not
  there. An error is returned together with the state reached when it was raised.

  \<^verbatim>\<open>add_job\<close> itself only stores the job, whatever its run date, and wakes the
  scheduler. The scheduler was started in \<^verbatim>\<open>main\<close> before anything is armed and
  runs on the same event loop, so it gets its turn when the running coroutine awaits; the
  pass it then makes is \<open>process_jobs\<close> below.
\<close>

definition add_job :: "bot_state \<Rightarrow> string \<Rightarrow> job \<Rightarrow> (error \<times> bot_state) + bot_state" where
  "add_job st job_id j =
     (if jobs st job_id \<noteq> None then Inl (ConflictingIdError, st)
      else Inr (st\<lparr>jobs := (jobs st)(job_id \<mapsto> j)\<rparr>))"

definition remove_job :: "bot_state \<Rightarrow> string \<Rightarrow> (error \<times> bot_state) + bot_state" where
  "remove_job st job_id =
     (if jobs st job_id = None then Inl (JobLookupError, st)
      else Inr (st\<lparr>jobs := (jobs st)(job_id := None)\<rparr>))"

text \<open>
  A pass of the running scheduler at clock reading \<open>now\<close>: every job whose run date has
  been reached is taken out of the store and handed to the executor, which calls it, or
  counts it as missed when it is more than the grace time of one second late. A job with a
  \<^verbatim>\<open>DateTrigger\<close> has no further run date, so it does not come back.
\<close>

definition take_due :: "int \<Rightarrow> (string \<rightharpoonup> job) \<Rightarrow> (string \<rightharpoonup> job)" where
  "take_due t J =
     (\<lambda>i. case J i of None \<Rightarrow> None | Some j \<Rightarrow> if run_date j \<le> t then None else Some j)"

definition process_jobs :: "datetime \<Rightarrow> bot_state \<Rightarrow> bot_state" where
  "process_jobs now st = st\<lparr>jobs := take_due (utc_instant now) (jobs st)\<rparr>"

text \<open>The job id \<^verbatim>\<open>f"{chat_id}_{name}_{kind}"\<close>.\<close>

fun str_nat :: "nat \<Rightarrow> string" where
  "str_nat n =
     (if n < 10 then [''0123456789'' ! n]
      else str_nat (n div 10) @ [''0123456789'' ! (n mod 10)])"

definition str_int :: "int \<Rightarrow> string" where
  "str_int i = (if i < 0 then CHR ''-'' # str_nat (nat (- i)) else str_nat (nat i))"

definition job_id_of :: "int \<Rightarrow> string \<Rightarrow> string \<Rightarrow> string" where
  "job_id_of chat nm kind = str_int chat @ ''_'' @ nm @ ''_'' @ kind"

definition job_kinds :: "string list" where
  "job_kinds = [''3d'', ''1d'', ''day_notification'', ''day_congrats'', ''annual'']"

text \<open>Sequencing of steps that may raise: the first error ends the run.\<close>

definition try_pure ::
  "bot_state \<Rightarrow> error + 'a \<Rightarrow> ('a \<Rightarrow> (error \<times> bot_state) + bot_state)
     \<Rightarrow> (error \<times> bot_state) + bot_state" where
  "try_pure st x f = (case x of Inl e \<Rightarrow> Inl (e, st) | Inr v \<Rightarrow> f v)"

definition and_then ::
  "(error \<times> bot_state) + bot_state \<Rightarrow> (bot_state \<Rightarrow> (error \<times> bot_state) + bot_state)
     \<Rightarrow> (error \<times> bot_state) + bot_state" where
  "and_then r f = (case r of Inl es \<Rightarrow> Inl es | Inr st \<Rightarrow> f st)"

subsection \<open>The reminder orchestrator\<close>

text \<open>\<^verbatim>\<open>SELECT .. FROM birthdays WHERE name = ? AND chat_id = ?\<close> with \<^verbatim>\<open>fetchone()\<close>.\<close>

definition select_by_chat :: "birthday_row list \<Rightarrow> string \<Rightarrow> int \<Rightarrow> birthday_row option" where
  "select_by_chat rows nm chat = find (\<lambda>r. name r = nm \<and> chat_id r = chat) rows"

text \<open>
  \<^verbatim>\<open>schedule_reminders\<close>. The coroutine awaits at its two database accesses, the
  \<^verbatim>\<open>SELECT\<close> of the flags at its start and the \<^verbatim>\<open>SELECT\<close> of the description
  between the two jobs of the birthday; the scheduler makes its pass there. A call is taken
  to last no time: \<open>now\<close> is the reading of the clock for \<^verbatim>\<open>get_moscow_now()\<close> and
  for both passes. The jobs added after the second \<^verbatim>\<open>SELECT\<close> are in the store when the
  function returns, whatever their run date.
\<close>

definition schedule_reminders ::
  "datetime \<Rightarrow> bot_state \<Rightarrow> string \<Rightarrow> datetime \<Rightarrow> int \<Rightarrow> int \<times> int \<Rightarrow> string option
     \<Rightarrow> (error \<times> bot_state) + bot_state" where
  "schedule_reminders now st nm birthdate_str chat rtime username =
     (let st = process_jobs now st in
      case select_by_chat (db st) nm chat of
        None \<Rightarrow> Inr st
      | Some settings_row \<Rightarrow>
        try_pure st (get_next_birthday now birthdate_str (fst rtime) (snd rtime)) (\<lambda>next_birthday.
        and_then
          (if remind_3_days settings_row \<noteq> 0 then
             try_pure st (dt_sub (timestamp next_birthday) (timedelta 3 0)) (\<lambda>reminder_3d.
             try_pure st (astimezone_utc reminder_3d) (\<lambda>reminder_utc.
             add_job st (job_id_of chat nm ''3d'')
               \<lparr>run_date = reminder_utc,
                func = Call_send_reminder chat (ReminderIn3Days nm)\<rparr>))
           else Inr st) (\<lambda>st.
        and_then
          (if remind_1_day settings_row \<noteq> 0 then
             try_pure st (dt_sub (timestamp next_birthday) (timedelta 1 0)) (\<lambda>reminder_1d.
             try_pure st (astimezone_utc reminder_1d) (\<lambda>reminder_utc.
             add_job st (job_id_of chat nm ''1d'')
               \<lparr>run_date = reminder_utc,
                func = Call_send_reminder chat (ReminderTomorrow nm)\<rparr>))
           else Inr st) (\<lambda>st.
        and_then
          (if remind_day settings_row \<noteq> 0 then
             try_pure st (astimezone_utc (timestamp next_birthday)) (\<lambda>birthday_utc.
             and_then
               (add_job st (job_id_of chat nm ''day_notification'')
                  \<lparr>run_date = birthday_utc,
                   func = Call_send_birthday_notification chat nm username\<rparr>) (\<lambda>st.
             try_pure st (dt_add birthday_utc (timedelta 0 2)) (\<lambda>congrats_time.
             let st = process_jobs now st in
             add_job st (job_id_of chat nm ''day_congrats'')
               \<lparr>run_date = congrats_time,
                func = Call_send_congrats_message chat nm birthdate_str
                  (case select_by_chat (db st) nm chat of
                     None \<Rightarrow> None
                   | Some description_row \<Rightarrow> description description_row)\<rparr>)))
           else Inr st) (\<lambda>st.
        try_pure st (dt_check (next_birthday\<lparr>year := year next_birthday + 1\<rparr>))
          (\<lambda>next_year_birthday.
        try_pure st (astimezone_utc (timestamp next_year_birthday)) (\<lambda>next_year_utc.
        try_pure st (dt_add next_year_utc (timedelta 1 0)) (\<lambda>annual_run_date.
        add_job st (job_id_of chat nm ''annual'')
          \<lparr>run_date = annual_run_date,
           func = Call_schedule_reminders nm birthdate_str chat rtime username\<rparr>))))))))"

text \<open>\<^verbatim>\<open>try: scheduler.remove_job(job_id) except: pass\<close>\<close>

definition remove_quietly :: "string \<Rightarrow> bot_state \<Rightarrow> bot_state" where
  "remove_quietly job_id st = (case remove_job st job_id of Inl (e, st') \<Rightarrow> st' | Inr st' \<Rightarrow> st')"

definition remove_scheduled_reminders :: "bot_state \<Rightarrow> int \<Rightarrow> string \<Rightarrow> bot_state" where
  "remove_scheduled_reminders st chat nm =
     fold remove_quietly
       [job_id_of chat nm ''3d'',
        job_id_of chat nm ''1d'',
        job_id_of chat nm ''day_notification'',
        job_id_of chat nm ''day_congrats'',
        job_id_of chat nm ''annual''] st"

definition remove_specific_reminder :: "bot_state \<Rightarrow> int \<Rightarrow> string \<Rightarrow> string \<Rightarrow> bot_state" where
  "remove_specific_reminder st chat nm reminder_type =
     remove_quietly (job_id_of chat nm reminder_type) st"

subsection \<open>What a job does when it fires\<close>

text \<open>
  The scheduler calls the job's callable with the stored \<^verbatim>\<open>args\<close>; \<open>now\<close> is the
  reading of the clock at that moment.
\<close>

definition send_message :: "bot_state \<Rightarrow> int \<Rightarrow> message_text \<Rightarrow> bot_state" where
  "send_message st chat text = st\<lparr>sent := sent st @ [(chat, text)]\<rparr>"

fun call_job :: "datetime \<Rightarrow> bot_state \<Rightarrow> job_call \<Rightarrow> (error \<times> bot_state) + bot_state" where
  "call_job now st (Call_send_reminder chat text) = Inr (send_message st chat text)"
| "call_job now st (Call_send_birthday_notification chat nm username) =
     Inr (send_message st chat (BirthdayToday nm username))"
| "call_job now st (Call_send_congrats_message chat nm birthdate_str descr) =
     Inr (send_message st chat (Congrats nm birthdate_str descr))"
| "call_job now st (Call_schedule_reminders nm birthdate_str chat rtime username) =
     schedule_reminders now st nm birthdate_str chat rtime username"

subsection \<open>The handlers that change a subscription\<close>

text \<open>
  The database access of a handler comes before its calls to the scheduler, so a pass of
  the scheduler during it takes out only jobs that were due before the handler touched the
  store; the handlers are written without that pass.
\<close>



text \<open>
  \<^verbatim>\<open>process_settings_value\<close>, parameter \<^verbatim>\<open>'time'\<close>: a time outside 0..23 : 0..59 is
  answered with a message and nothing changes; otherwise the stored time is updated
  (\<^verbatim>\<open>WHERE name = ? AND user_id = ?\<close>), the jobs are removed and armed again. The
  birthdate and the username come from the data of the dialogue.
\<close>

definition update_time :: "bot_state \<Rightarrow> int \<Rightarrow> string \<Rightarrow> int \<times> int \<Rightarrow> bot_state" where
  "update_time st user nm rtime =
     st\<lparr>db := map (\<lambda>r. if name r = nm \<and> user_id r = user then r\<lparr>reminder_time := rtime\<rparr> else r)
                (db st)\<rparr>"

definition process_settings_value_time ::
  "datetime \<Rightarrow> bot_state \<Rightarrow> int \<Rightarrow> int \<Rightarrow> string \<Rightarrow> datetime \<Rightarrow> int \<times> int \<Rightarrow> string option
     \<Rightarrow> (error \<times> bot_state) + bot_state" where
  "process_settings_value_time now st user chat settings_name birthdate_str rtime current_username =
     (if fst rtime < 0 \<or> fst rtime > 23 \<or> snd rtime < 0 \<or> snd rtime > 59 then Inr st
      else schedule_reminders now
             (remove_scheduled_reminders (update_time st user settings_name rtime) chat settings_name)
             settings_name birthdate_str chat rtime current_username)"

text \<open>
  \<^verbatim>\<open>process_settings_value\<close>, parameter \<^verbatim>\<open>'reminders'\<close>: the answers that save. The
  three values are all 1, all 0, or the ones chosen by hand; they are written to the row
  and the jobs of the kinds whose value is 0 are removed.
\<close>

datatype reminders_answer = EnableAll | DisableAll | SaveManual int int int

definition update_flags :: "bot_state \<Rightarrow> int \<Rightarrow> string \<Rightarrow> int \<Rightarrow> int \<Rightarrow> int \<Rightarrow> bot_state" where
  "update_flags st user nm r3d r1d rd =
     st\<lparr>db := map (\<lambda>r. if name r = nm \<and> user_id r = user
                        then r\<lparr>remind_3_days := r3d, remind_1_day := r1d, remind_day := rd\<rparr>
                        else r) (db st)\<rparr>"

definition process_settings_value_reminders ::
  "bot_state \<Rightarrow> int \<Rightarrow> int \<Rightarrow> string \<Rightarrow> reminders_answer \<Rightarrow> bot_state" where
  "process_settings_value_reminders st user chat settings_name answer =
     (let (r3d, r1d, rd) =
            (case answer of
               EnableAll \<Rightarrow> (1, 1, 1)
             | DisableAll \<Rightarrow> (0, 0, 0)
             | SaveManual m3 m1 md \<Rightarrow> (m3, m1, md));
          st = update_flags st user settings_name r3d r1d rd;
          st = (if r3d = 0 then remove_specific_reminder st chat settings_name ''3d'' else st);
          st = (if r1d = 0 then remove_specific_reminder st chat settings_name ''1d'' else st);
          st = (if rd = 0
                then remove_specific_reminder
                       (remove_specific_reminder st chat settings_name ''day_notification'')
                       chat settings_name ''day_congrats''
                else st)
      in st)"

subsection \<open>The jobs a subscription is expected to have\<close>

text \<open>
  The job store after arming, written out: \<open>t\<close> is the clock reading in UTC, \<open>nb\<close> the
  next birthday and \<open>ny\<close> the occurrence of the year after it. The jobs of the store that
  are due at \<open>t\<close> are gone; each enabled flag adds its jobs; of the jobs added before the
  description is read, the ones due at \<open>t\<close> are gone again; the annual job is added last.
\<close>

definition reminder_jobs ::
  "int \<Rightarrow> (string \<rightharpoonup> job) \<Rightarrow> birthday_row \<Rightarrow> datetime \<Rightarrow> string \<Rightarrow> datetime \<Rightarrow> int
     \<Rightarrow> string option \<Rightarrow> (string \<rightharpoonup> job)" where
  "reminder_jobs t J row nb nm bd chat u =
     (let J0 = take_due t J;
          J1 = (if remind_3_days row \<noteq> 0
                then J0(job_id_of chat nm ''3d'' \<mapsto>
                       \<lparr>run_date = utc_instant nb - timedelta 3 0,
                        func = Call_send_reminder chat (ReminderIn3Days nm)\<rparr>)
                else J0);
          J2 = (if remind_1_day row \<noteq> 0
                then J1(job_id_of chat nm ''1d'' \<mapsto>
                       \<lparr>run_date = utc_instant nb - timedelta 1 0,
                        func = Call_send_reminder chat (ReminderTomorrow nm)\<rparr>)
                else J1)
      in if remind_day row \<noteq> 0
         then (take_due t
                 (J2(job_id_of chat nm ''day_notification'' \<mapsto>
                       \<lparr>run_date = utc_instant nb,
                        func = Call_send_birthday_notification chat nm u\<rparr>)))
                (job_id_of chat nm ''day_congrats'' \<mapsto>
                   \<lparr>run_date = utc_instant nb + timedelta 0 2,
                    func = Call_send_congrats_message chat nm bd (description row)\<rparr>)
         else J2)"

definition armed_jobs ::
  "int \<Rightarrow> (string \<rightharpoonup> job) \<Rightarrow> birthday_row \<Rightarrow> datetime \<Rightarrow> datetime \<Rightarrow> string \<Rightarrow> datetime \<Rightarrow> int
     \<Rightarrow> int \<times> int \<Rightarrow> string option \<Rightarrow> (string \<rightharpoonup> job)" where
  "armed_jobs t J row nb ny nm bd chat rt u =
     (reminder_jobs t J row nb nm bd chat u)
       (job_id_of chat nm ''annual'' \<mapsto>
          \<lparr>run_date = utc_instant ny + timedelta 1 0,
           func = Call_schedule_reminders nm bd chat rt u\<rparr>)"

subsection \<open>Concrete values for the examples\<close>

definition at :: "int \<Rightarrow> int \<Rightarrow> int \<Rightarrow> int \<Rightarrow> int \<Rightarrow> int \<Rightarrow> datetime" where
  "at y m d h mi s =
     \<lparr>year = y, month = m, day = d, hour = h, minute = mi, second = s, microsecond = 0\<rparr>"

definition anna_birthdate :: datetime where
  "anna_birthdate = at 1990 5 15 0 0 0"

definition leap_birthdate :: datetime where
  "leap_birthdate = at 2000 2 29 0 0 0"

definition anna_row :: birthday_row where
  "anna_row =
     \<lparr>user_id = 7, chat_id = 7, name = ''Anna'', birthdate = anna_birthdate,
      description = Some ''likes cats'', telegram_username = None, reminder_time = (9, 0),
      remind_3_days = 1, remind_1_day = 1, remind_day = 1\<rparr>"

definition anna_state :: bot_state where
  "anna_state = \<lparr>db = [anna_row], jobs = Map.empty, sent = []\<rparr>"

definition anna_armed :: bot_state where
  "anna_armed =
     anna_state\<lparr>jobs := armed_jobs (utc_instant (at 2024 5 10 12 0 0)) Map.empty anna_row
                          (at 2024 5 15 9 0 0) (at 2025 5 15 9 0 0)
                          ''Anna'' anna_birthdate 7 (9, 0) None\<rparr>"

definition anna_muted :: bot_state where
  "anna_muted =
     \<lparr>db = [anna_row\<lparr>remind_3_days := 0, remind_1_day := 0, remind_day := 0\<rparr>],
      jobs = Map.empty, sent = []\<rparr>"

definition anna_redescribed :: bot_state where
  "anna_redescribed = anna_armed\<lparr>db := [anna_row\<lparr>description := Some ''likes dogs''\<rparr>]\<rparr>"

definition anna_retimed :: bot_state where
  "anna_retimed = \<lparr>db = [anna_row\<lparr>reminder_time := (10, 30)\<rparr>], jobs = Map.empty, sent = []\<rparr>"

definition anna_no3d_row :: birthday_row where
  "anna_no3d_row = anna_row\<lparr>remind_3_days := 0\<rparr>"

definition anna_no3d :: bot_state where
  "anna_no3d =
     \<lparr>db = [anna_no3d_row],
      jobs = armed_jobs (utc_instant (at 2024 5 10 12 0 0)) Map.empty anna_no3d_row
               (at 2024 5 15 9 0 0) (at 2025 5 15 9 0 0)
               ''Anna'' anna_birthdate 7 (9, 0) None,
      sent = []\<rparr>"

definition leap_row :: birthday_row where
  "leap_row =
     \<lparr>user_id = 7, chat_id = 7, name = ''Lea'', birthdate = leap_birthdate,
      description = None, telegram_username = None, reminder_time = (9, 0),
      remind_3_days = 1, remind_1_day = 1, remind_day = 1\<rparr>"

definition leap_state :: bot_state where
  "leap_state = \<lparr>db = [leap_row], jobs = Map.empty, sent = []\<rparr>"

definition leap_muted :: bot_state where
  "leap_muted =
     \<lparr>db = [leap_row\<lparr>remind_3_days := 0, remind_1_day := 0, remind_day := 0\<rparr>],
      jobs = Map.empty, sent = []\<rparr>"

subsection \<open>Facts about the calendar\<close>

lemma lex_less_irrefl: "\<not> lex_less xs xs"
  by (induction xs) auto

lemma dt_lt_year_less: "year a < year b \<Longrightarrow> dt_lt a b"
  by (simp add: dt_lt_def dt_fields_def)

lemma dt_lt_year_greater: "year b < year a \<Longrightarrow> \<not> dt_lt a b"
  by (simp add: dt_lt_def dt_fields_def)

lemma dt_lt_irrefl: "\<not> dt_lt a a"
  by (simp add: dt_lt_def lex_less_irrefl)

lemma dt_check_Inr: "dt_check d = Inr d' \<Longrightarrow> d' = d"
  by (simp add: dt_check_def split: if_splits)

lemma occurrence_Inr:
  "occurrence b h mi y = Inr d \<Longrightarrow> d = b\<lparr>year := y, hour := h, minute := mi, second := 0\<rparr>"
  by (simp add: occurrence_def dt_check_Inr)

lemma replace_year_again:
  "b\<lparr>year := y, hour := h, minute := mi, second := s\<rparr>\<lparr>year := y'\<rparr>
     = b\<lparr>year := y', hour := h, minute := mi, second := s\<rparr>"
  by (cases b) simp

lemma is_leap_next: "is_leap y \<Longrightarrow> \<not> is_leap (y + 1)"
  unfolding is_leap_def by presburger

lemma dt_check_feb29:
  "month d = 2 \<Longrightarrow> day d = 29 \<Longrightarrow> \<not> is_leap (year d) \<Longrightarrow> dt_check d = Inl ValueError"
  by (simp add: dt_check_def days_in_month_def DAYS_IN_MONTH_def)

lemma dt_check_feb29_leap:
  "month d = 2 \<Longrightarrow> day d = 29 \<Longrightarrow> dt_check d = Inr d' \<Longrightarrow> is_leap (year d)"
  using dt_check_feb29 [of d] by auto

subsection \<open>Facts about the timeline and the job store\<close>

lemma days_before_month_bounds:
  assumes "1 \<le> m" and "m \<le> 12"
  shows "0 \<le> days_before_month y m \<and> days_before_month y m \<le> 335"
proof -
  from assms have "m = 1 \<or> m = 2 \<or> m = 3 \<or> m = 4 \<or> m = 5 \<or> m = 6 \<or> m = 7 \<or> m = 8 \<or> m = 9
      \<or> m = 10 \<or> m = 11 \<or> m = 12" by arith
  then show ?thesis
    by (elim disjE) (simp_all add: days_before_month_def DAYS_BEFORE_MONTH_def)
qed

lemma days_in_month_le:
  assumes "1 \<le> m" and "m \<le> 12"
  shows "days_in_month y m \<le> 31"
proof -
  from assms have "m = 1 \<or> m = 2 \<or> m = 3 \<or> m = 4 \<or> m = 5 \<or> m = 6 \<or> m = 7 \<or> m = 8 \<or> m = 9
      \<or> m = 10 \<or> m = 11 \<or> m = 12" by arith
  then show ?thesis
    by (elim disjE) (simp_all add: days_in_month_def DAYS_IN_MONTH_def)
qed

lemma days_before_year_bounds:
  assumes "2 \<le> y" and "y \<le> 9998"
  shows "365 \<le> days_before_year y \<and> days_before_year y \<le> 3651404"
proof -
  define z where "z = y - 1"
  have z: "1 \<le> z" "z \<le> 9997" using assms by (simp_all add: z_def)
  have q4: "z div 4 \<le> 2499" using z by simp
  have q400: "0 \<le> z div 400" using z by simp
  have q100: "z div 100 \<le> z div 4" using z by (intro zdiv_mono2) simp_all
  have q100': "z div 400 \<le> z div 100" using z by (intro zdiv_mono2) simp_all
  from z q4 q400 q100 q100' show ?thesis
    unfolding days_before_year_def z_def [symmetric] by simp
qed

lemma ymd2ord_bounds:
  assumes "dt_check x = Inr x'" and "2 \<le> year x" and "year x \<le> 9998"
  shows "366 \<le> ymd2ord (year x) (month x) (day x)
       \<and> ymd2ord (year x) (month x) (day x) \<le> 3651770"
proof -
  from assms(1) have m: "1 \<le> month x" "month x \<le> 12"
    and d: "1 \<le> day x" "day x \<le> days_in_month (year x) (month x)"
    by (simp_all add: dt_check_def split: if_splits)
  from days_in_month_le [OF m, of "year x"] d have d31: "day x \<le> 31" by simp
  from days_before_month_bounds [OF m, of "year x"] days_before_year_bounds [OF assms(2,3)] d d31
  show ?thesis by (simp add: ymd2ord_def)
qed

lemma timestamp_bounds:
  assumes "dt_check x = Inr x'" and "2 \<le> year x" and "year x \<le> 9998"
  shows "366 * DAY_US \<le> timestamp x \<and> timestamp x < 3651771 * DAY_US"
proof -
  from assms(1) have t: "0 \<le> hour x" "hour x \<le> 23" "0 \<le> minute x" "minute x \<le> 59"
    "0 \<le> second x" "second x \<le> 59" "0 \<le> microsecond x" "microsecond x \<le> 999999"
    by (simp_all add: dt_check_def split: if_splits)
  define n where "n = ymd2ord (year x) (month x) (day x)"
  from ymd2ord_bounds [OF assms] have ob: "366 \<le> n" "n \<le> 3651770" by (simp_all add: n_def)
  from ob t show ?thesis
    unfolding timestamp_def DAY_US_def n_def [symmetric] by simp
qed

lemma get_next_birthday_checked:
  assumes "get_next_birthday now b h mi = Inr nb"
  shows "dt_check nb = Inr nb \<and> (year nb = year now \<or> year nb = year now + 1)"
proof (cases "dt_check (b\<lparr>year := year now, hour := h, minute := mi, second := 0\<rparr>)")
  case (Inl e)
  with assms show ?thesis by (simp add: get_next_birthday_def)
next
  case (Inr c)
  then have c: "c = b\<lparr>year := year now, hour := h, minute := mi, second := 0\<rparr>"
    by (rule dt_check_Inr)
  show ?thesis
  proof (cases "dt_lt c now")
    case True
    with assms Inr have n: "dt_check (c\<lparr>year := year now + 1\<rparr>) = Inr nb"
      by (simp add: get_next_birthday_def)
    then have "nb = c\<lparr>year := year now + 1\<rparr>" by (rule dt_check_Inr)
    with n show ?thesis by simp
  next
    case False
    with assms Inr have "nb = c" by (simp add: get_next_birthday_def)
    with Inr c show ?thesis by simp
  qed
qed

lemma job_id_of_eq [simp]: "(job_id_of c n k = job_id_of c n k') = (k = k')"
  by (simp add: job_id_of_def)

lemma shifts_ok:
  assumes "366 * DAY_US \<le> t" and "t < 3651771 * DAY_US"
  shows "dt_sub t (timedelta 3 0) = Inr (t - timedelta 3 0)"
    and "dt_sub t (timedelta 1 0) = Inr (t - timedelta 1 0)"
    and "astimezone_utc (t - timedelta 3 0) = Inr (t - MOSCOW_UTCOFFSET - timedelta 3 0)"
    and "astimezone_utc (t - timedelta 1 0) = Inr (t - MOSCOW_UTCOFFSET - timedelta 1 0)"
    and "astimezone_utc t = Inr (t - MOSCOW_UTCOFFSET)"
    and "dt_add (t - MOSCOW_UTCOFFSET) (timedelta 0 2) = Inr (t - MOSCOW_UTCOFFSET + timedelta 0 2)"
    and "dt_add (t - MOSCOW_UTCOFFSET) (timedelta 1 0) = Inr (t - MOSCOW_UTCOFFSET + timedelta 1 0)"
  using assms
  by (simp_all add: dt_sub_def astimezone_utc_def dt_add_def Let_def DAY_US_def MAXORDINAL_def
      MOSCOW_UTCOFFSET_def timedelta_def pos_imp_zdiv_pos_iff)

lemma free_ids:
  assumes "\<forall>k\<in>set job_kinds. jobs st (job_id_of chat nm k) = None"
  shows "jobs st (job_id_of chat nm ''3d'') = None"
    and "jobs st (job_id_of chat nm ''1d'') = None"
    and "jobs st (job_id_of chat nm ''day_notification'') = None"
    and "jobs st (job_id_of chat nm ''day_congrats'') = None"
    and "jobs st (job_id_of chat nm ''annual'') = None"
  using assms by (simp_all add: job_kinds_def)

lemma take_due_free [simp]: "J i = None \<Longrightarrow> take_due t J i = None"
  by (simp add: take_due_def)

lemma take_due_ahead: "J i = Some j \<Longrightarrow> t < run_date j \<Longrightarrow> take_due t J i = Some j"
  by (simp add: take_due_def)

lemma take_due_reached: "J i = Some j \<Longrightarrow> run_date j \<le> t \<Longrightarrow> take_due t J i = None"
  by (simp add: take_due_def)

lemma take_due_empty [simp]: "take_due t Map.empty = Map.empty"
  by (simp add: take_due_def)

lemma take_due_idem [simp]: "take_due t (take_due t J) = take_due t J"
  by (auto simp: take_due_def fun_eq_iff split: option.splits)

lemma take_due_upd_ahead:
  "t < run_date j \<Longrightarrow> take_due t (J(i \<mapsto> j)) = (take_due t J)(i \<mapsto> j)"
  by (auto simp: take_due_def fun_eq_iff)

lemma take_due_upd_reached:
  "run_date j \<le> t \<Longrightarrow> take_due t (J(i \<mapsto> j)) = (take_due t J)(i := None)"
  by (auto simp: take_due_def fun_eq_iff)

lemma process_jobs_simps [simp]:
  "jobs (process_jobs now st) = take_due (utc_instant now) (jobs st)"
  "db (process_jobs now st) = db st"
  "sent (process_jobs now st) = sent st"
  by (simp_all add: process_jobs_def)

lemma schedule_reminders_armed:
  assumes row: "select_by_chat (db st) nm chat = Some row"
    and nb: "get_next_birthday now bd (fst rt) (snd rt) = Inr nb"
    and ny: "dt_check (nb\<lparr>year := year nb + 1\<rparr>) = Inr ny"
    and yr: "2 \<le> year now" "year now \<le> 9996"
    and free: "\<forall>k\<in>set job_kinds. jobs st (job_id_of chat nm k) = None"
  shows "schedule_reminders now st nm bd chat rt u
           = Inr (st\<lparr>jobs := armed_jobs (utc_instant now) (jobs st) row nb ny nm bd chat rt u\<rparr>)"
proof -
  from get_next_birthday_checked [OF nb] yr
  have cnb: "dt_check nb = Inr nb" and ynb: "2 \<le> year nb" "year nb \<le> 9997" by auto
  from ny have nyeq: "ny = nb\<lparr>year := year nb + 1\<rparr>" by (rule dt_check_Inr)
  have cny: "dt_check ny = Inr ny" using ny by (simp add: nyeq)
  have yny: "2 \<le> year ny" "year ny \<le> 9998" using ynb by (simp_all add: nyeq)
  from timestamp_bounds [OF cnb] ynb
  have bnb: "366 * DAY_US \<le> timestamp nb" "timestamp nb < 3651771 * DAY_US" by simp_all
  from timestamp_bounds [OF cny yny]
  have bny: "366 * DAY_US \<le> timestamp ny" "timestamp ny < 3651771 * DAY_US" by simp_all
  note s1 = shifts_ok [OF bnb] shifts_ok(5,7) [OF bny]
  note f = free_ids [OF free]
  show ?thesis
    unfolding schedule_reminders_def
    by (simp add: row nb ny s1 f try_pure_def and_then_def add_job_def armed_jobs_def reminder_jobs_def Let_def
        utc_instant_def process_jobs_def)
qed

lemma schedule_reminders_no_next_year:
  assumes row: "select_by_chat (db st) nm chat = Some row"
    and nb: "get_next_birthday now bd (fst rt) (snd rt) = Inr nb"
    and ny: "dt_check (nb\<lparr>year := year nb + 1\<rparr>) = Inl e"
    and yr: "2 \<le> year now" "year now \<le> 9996"
    and free: "\<forall>k\<in>set job_kinds. jobs st (job_id_of chat nm k) = None"
  shows "schedule_reminders now st nm bd chat rt u
           = Inl (e, st\<lparr>jobs := reminder_jobs (utc_instant now) (jobs st) row nb nm bd chat u\<rparr>)"
proof -
  from get_next_birthday_checked [OF nb] yr
  have cnb: "dt_check nb = Inr nb" and ynb: "2 \<le> year nb" "year nb \<le> 9997" by auto
  from timestamp_bounds [OF cnb] ynb
  have bnb: "366 * DAY_US \<le> timestamp nb" "timestamp nb < 3651771 * DAY_US" by simp_all
  note s1 = shifts_ok [OF bnb]
  note f = free_ids [OF free]
  show ?thesis
    unfolding schedule_reminders_def
    by (simp add: row nb ny s1 f try_pure_def and_then_def add_job_def reminder_jobs_def Let_def
        utc_instant_def process_jobs_def)
qed

lemma reminder_jobs_annual:
  "J (job_id_of chat nm ''annual'') = None \<Longrightarrow>
   reminder_jobs t J row nb nm bd chat u (job_id_of chat nm ''annual'') = None"
  by (simp add: reminder_jobs_def Let_def)

lemma reminder_jobs_congrats:
  "remind_day row \<noteq> 0 \<Longrightarrow>
   reminder_jobs t J row nb nm bd chat u (job_id_of chat nm ''day_congrats'') =
     Some \<lparr>run_date = utc_instant nb + timedelta 0 2,
           func = Call_send_congrats_message chat nm bd (description row)\<rparr>"
  by (simp add: reminder_jobs_def Let_def)

lemma reminder_jobs_muted:
  "remind_3_days row = 0 \<Longrightarrow> remind_1_day row = 0 \<Longrightarrow> remind_day row = 0 \<Longrightarrow>
   reminder_jobs t J row nb nm bd chat u = take_due t J"
  by (simp add: reminder_jobs_def Let_def)

lemma card_job_ids: "card (job_id_of chat nm ` set job_kinds) = 5"
proof -
  have "inj_on (job_id_of chat nm) (set job_kinds)" by (rule inj_onI) simp
  then have "card (job_id_of chat nm ` set job_kinds) = card (set job_kinds)"
    by (rule card_image)
  also have "\<dots> = 5" by (simp add: job_kinds_def)
  finally show ?thesis .
qed

lemma utc_examples:
  "utc_instant (at 2024 5 15 9 0 0) - timedelta 3 0 = utc_instant (at 2024 5 12 9 0 0)"
  "utc_instant (at 2024 5 15 9 0 0) - timedelta 1 0 = utc_instant (at 2024 5 14 9 0 0)"
  "utc_instant (at 2024 5 15 9 0 0) + timedelta 0 2 = utc_instant (at 2024 5 15 9 0 2)"
  "utc_instant (at 2025 5 15 9 0 0) + timedelta 1 0 = utc_instant (at 2025 5 16 9 0 0)"
  by (simp_all add: utc_instant_def timedelta_def timestamp_def at_def ymd2ord_def
      days_before_year_def days_before_month_def DAYS_BEFORE_MONTH_def is_leap_def)

lemma anna_ahead:
  "utc_instant (at 2024 5 10 12 0 0) < utc_instant (at 2024 5 15 9 0 0) - timedelta 3 0"
  "utc_instant (at 2024 5 10 13 0 0) < utc_instant (at 2024 5 12 9 0 0)"
  by (simp_all add: utc_instant_def timedelta_def timestamp_def at_def ymd2ord_def
      days_before_year_def days_before_month_def DAYS_BEFORE_MONTH_def is_leap_def)

lemma anna_next_birthday:
  "get_next_birthday (at 2024 5 10 12 0 0) anna_birthdate (fst (9, 0)) (snd (9, 0))
     = Inr (at 2024 5 15 9 0 0)"
  by (simp add: get_next_birthday_def dt_check_def anna_birthdate_def at_def MAXYEAR_def
      days_in_month_def DAYS_IN_MONTH_def dt_lt_def dt_fields_def)

lemma anna_next_year:
  "dt_check ((at 2024 5 15 9 0 0)\<lparr>year := year (at 2024 5 15 9 0 0) + 1\<rparr>)
     = Inr (at 2025 5 15 9 0 0)"
  by (simp add: dt_check_def at_def MAXYEAR_def days_in_month_def DAYS_IN_MONTH_def)

lemma anna_years: "2 \<le> year (at 2024 5 10 12 0 0)" "year (at 2024 5 10 12 0 0) \<le> 9996"
  by (simp_all add: at_def)

lemma anna_armed_reached:
  "schedule_reminders (at 2024 5 10 12 0 0) anna_state ''Anna'' anna_birthdate 7 (9, 0) None
     = Inr anna_armed"
proof -
  have row: "select_by_chat (db anna_state) ''Anna'' 7 = Some anna_row"
    by (simp add: select_by_chat_def anna_state_def anna_row_def)
  have free: "\<forall>k\<in>set job_kinds. jobs anna_state (job_id_of 7 ''Anna'' k) = None"
    by (simp add: anna_state_def)
  from schedule_reminders_armed [OF row anna_next_birthday anna_next_year anna_years free]
  show ?thesis by (simp add: anna_armed_def anna_state_def)
qed

lemma armed_jobs_annual:
  "armed_jobs t J row nb ny nm bd chat rt u (job_id_of chat nm ''annual'') =
     Some \<lparr>run_date = utc_instant ny + timedelta 1 0,
           func = Call_schedule_reminders nm bd chat rt u\<rparr>"
  by (simp add: armed_jobs_def reminder_jobs_def Let_def)

lemma armed_jobs_congrats:
  "remind_day row \<noteq> 0 \<Longrightarrow>
   armed_jobs t J row nb ny nm bd chat rt u (job_id_of chat nm ''day_congrats'') =
     Some \<lparr>run_date = utc_instant nb + timedelta 0 2,
           func = Call_send_congrats_message chat nm bd (description row)\<rparr>"
  by (simp add: armed_jobs_def reminder_jobs_def Let_def)

lemma armed_jobs_notification:
  "remind_day row \<noteq> 0 \<Longrightarrow> t < utc_instant nb \<Longrightarrow>
   armed_jobs t J row nb ny nm bd chat rt u (job_id_of chat nm ''day_notification'') =
     Some \<lparr>run_date = utc_instant nb,
           func = Call_send_birthday_notification chat nm u\<rparr>"
  by (simp add: armed_jobs_def reminder_jobs_def Let_def take_due_def)

lemma armed_jobs_3d:
  "remind_3_days row \<noteq> 0 \<Longrightarrow> t < utc_instant nb - timedelta 3 0 \<Longrightarrow>
   armed_jobs t J row nb ny nm bd chat rt u (job_id_of chat nm ''3d'') =
     Some \<lparr>run_date = utc_instant nb - timedelta 3 0,
           func = Call_send_reminder chat (ReminderIn3Days nm)\<rparr>"
  by (simp add: armed_jobs_def reminder_jobs_def Let_def take_due_def)

lemma armed_jobs_1d:
  "remind_1_day row \<noteq> 0 \<Longrightarrow> t < utc_instant nb - timedelta 1 0 \<Longrightarrow>
   armed_jobs t J row nb ny nm bd chat rt u (job_id_of chat nm ''1d'') =
     Some \<lparr>run_date = utc_instant nb - timedelta 1 0,
           func = Call_send_reminder chat (ReminderTomorrow nm)\<rparr>"
  by (simp add: armed_jobs_def reminder_jobs_def Let_def take_due_def)

lemma armed_jobs_other:
  "i \<notin> job_id_of chat nm ` set job_kinds \<Longrightarrow>
   armed_jobs t J row nb ny nm bd chat rt u i = take_due t J i"
  by (auto simp: armed_jobs_def reminder_jobs_def Let_def take_due_def job_kinds_def split: option.splits)

lemma armed_jobs_muted:
  "remind_3_days row = 0 \<Longrightarrow> remind_1_day row = 0 \<Longrightarrow> remind_day row = 0 \<Longrightarrow>
   armed_jobs t J row nb ny nm bd chat rt u =
     (take_due t J)(job_id_of chat nm ''annual'' \<mapsto>
        \<lparr>run_date = utc_instant ny + timedelta 1 0,
         func = Call_schedule_reminders nm bd chat rt u\<rparr>)"
  by (simp add: armed_jobs_def reminder_jobs_def Let_def)

lemma anna_armed_jobs:
  "jobs anna_armed (job_id_of 7 ''Anna'' ''3d'') =
     Some \<lparr>run_date = utc_instant (at 2024 5 12 9 0 0),
           func = Call_send_reminder 7 (ReminderIn3Days ''Anna'')\<rparr>"
  "jobs anna_armed (job_id_of 7 ''Anna'' ''day_congrats'') =
     Some \<lparr>run_date = utc_instant (at 2024 5 15 9 0 2),
           func = Call_send_congrats_message 7 ''Anna'' anna_birthdate (Some ''likes cats'')\<rparr>"
  "jobs anna_armed (job_id_of 7 ''Anna'' ''annual'') =
     Some \<lparr>run_date = utc_instant (at 2025 5 16 9 0 0),
           func = Call_schedule_reminders ''Anna'' anna_birthdate 7 (9, 0) None\<rparr>"
proof -
  have f: "remind_3_days anna_row \<noteq> 0" "remind_day anna_row \<noteq> 0"
    "description anna_row = Some ''likes cats''"
    by (simp_all add: anna_row_def)
  show "jobs anna_armed (job_id_of 7 ''Anna'' ''3d'') =
     Some \<lparr>run_date = utc_instant (at 2024 5 12 9 0 0),
           func = Call_send_reminder 7 (ReminderIn3Days ''Anna'')\<rparr>"
    using armed_jobs_3d [OF f(1) anna_ahead(1)] by (simp add: anna_armed_def utc_examples)
  show "jobs anna_armed (job_id_of 7 ''Anna'' ''day_congrats'') =
     Some \<lparr>run_date = utc_instant (at 2024 5 15 9 0 2),
           func = Call_send_congrats_message 7 ''Anna'' anna_birthdate (Some ''likes cats'')\<rparr>"
    using armed_jobs_congrats [OF f(2)] by (simp add: anna_armed_def utc_examples f(3))
  show "jobs anna_armed (job_id_of 7 ''Anna'' ''annual'') =
     Some \<lparr>run_date = utc_instant (at 2025 5 16 9 0 0),
           func = Call_schedule_reminders ''Anna'' anna_birthdate 7 (9, 0) None\<rparr>"
    by (simp add: anna_armed_def armed_jobs_annual utc_examples)
qed

lemma remove_quietly_jobs: "remove_quietly i st = st\<lparr>jobs := (jobs st)(i := None)\<rparr>"
proof (cases "jobs st i")
  case None
  then have "(jobs st)(i := None) = jobs st" by (simp add: fun_upd_idem)
  with None show ?thesis by (simp add: remove_quietly_def remove_job_def)
next
  case (Some j)
  then show ?thesis by (simp add: remove_quietly_def remove_job_def)
qed

lemma remove_scheduled_reminders_jobs:
  "remove_scheduled_reminders st chat nm =
     st\<lparr>jobs := (\<lambda>i. if i \<in> job_id_of chat nm ` set job_kinds then None else jobs st i)\<rparr>"
  by (auto simp: remove_scheduled_reminders_def remove_quietly_jobs job_kinds_def
      intro!: arg_cong2 [where f = "\<lambda>f (r::bot_state). r\<lparr>jobs := f\<rparr>"])

lemma find_map_same:
  assumes "\<And>r. P (h r) = P r"
  shows "find P (map h xs) = map_option h (find P xs)"
  by (induction xs) (simp_all add: assms)

lemma select_by_chat_update_time:
  "select_by_chat (db (update_time st user' nm' rt')) nm chat
     = map_option (\<lambda>r. if name r = nm' \<and> user_id r = user' then r\<lparr>reminder_time := rt'\<rparr> else r)
         (select_by_chat (db st) nm chat)"
  unfolding select_by_chat_def update_time_def
  by (simp add: find_map_same)

lemma select_by_chat_update_flags:
  "select_by_chat (db (update_flags st user' nm' r3 r1 rd)) nm chat
     = map_option (\<lambda>r. if name r = nm' \<and> user_id r = user'
                        then r\<lparr>remind_3_days := r3, remind_1_day := r1, remind_day := rd\<rparr>
                        else r)
         (select_by_chat (db st) nm chat)"
  unfolding select_by_chat_def update_flags_def
  by (simp add: find_map_same)

lemma select_by_chat_name: "select_by_chat rows nm chat = Some row \<Longrightarrow> name row = nm"
  unfolding select_by_chat_def by (induction rows) (auto split: if_splits)

lemma armed_jobs_time [simp]:
  "armed_jobs t J (row\<lparr>reminder_time := rt'\<rparr>) nb ny nm bd chat rt u
     = armed_jobs t J row nb ny nm bd chat rt u"
  by (simp add: armed_jobs_def reminder_jobs_def Let_def)

lemma retimed_row:
  "select_by_chat (db anna_retimed) ''Anna'' 7 = Some (anna_row\<lparr>reminder_time := (10, 30)\<rparr>)"
  by (simp add: select_by_chat_def anna_retimed_def anna_row_def)

lemma retimed_next_birthday:
  "get_next_birthday (at 2025 5 16 9 0 0) anna_birthdate (fst (9, 0)) (snd (9, 0))
     = Inr (at 2026 5 15 9 0 0)"
  by (simp add: get_next_birthday_def dt_check_def anna_birthdate_def at_def MAXYEAR_def
      days_in_month_def DAYS_IN_MONTH_def dt_lt_def dt_fields_def)

lemma retimed_next_year:
  "dt_check ((at 2026 5 15 9 0 0)\<lparr>year := year (at 2026 5 15 9 0 0) + 1\<rparr>)
     = Inr (at 2027 5 15 9 0 0)"
  by (simp add: dt_check_def at_def MAXYEAR_def days_in_month_def DAYS_IN_MONTH_def)

lemma retimed_years: "2 \<le> year (at 2025 5 16 9 0 0)" "year (at 2025 5 16 9 0 0) \<le> 9996"
  by (simp_all add: at_def)

lemma retimed_free: "\<forall>k\<in>set job_kinds. jobs anna_retimed (job_id_of 7 ''Anna'' k) = None"
  by (simp add: anna_retimed_def)

lemma leap_facts:
  "select_by_chat (db leap_state) ''Lea'' 7 = Some leap_row"
  "get_next_birthday (at 2024 1 10 12 0 0) leap_birthdate (fst (9, 0)) (snd (9, 0))
     = Inr (at 2024 2 29 9 0 0)"
  "dt_check ((at 2024 2 29 9 0 0)\<lparr>year := year (at 2024 2 29 9 0 0) + 1\<rparr>) = Inl ValueError"
  "2 \<le> year (at 2024 1 10 12 0 0)" "year (at 2024 1 10 12 0 0) \<le> 9996"
  "\<forall>k\<in>set job_kinds. jobs leap_state (job_id_of 7 ''Lea'' k) = None"
  by (simp_all add: select_by_chat_def leap_state_def leap_row_def get_next_birthday_def
      dt_check_def leap_birthdate_def at_def MAXYEAR_def days_in_month_def DAYS_IN_MONTH_def
      dt_lt_def dt_fields_def is_leap_def)

lemma eve_facts:
  "get_next_birthday (at 2024 5 14 12 0 0) anna_birthdate (fst (9, 0)) (snd (9, 0))
     = Inr (at 2024 5 15 9 0 0)"
  "2 \<le> year (at 2024 5 14 12 0 0)" "year (at 2024 5 14 12 0 0) \<le> 9996"
  "utc_instant (at 2024 5 15 9 0 0) - timedelta 3 0 \<le> utc_instant (at 2024 5 14 12 0 0)"
  "utc_instant (at 2024 5 15 9 0 0) - timedelta 1 0 \<le> utc_instant (at 2024 5 14 12 0 0)"
  "utc_instant (at 2024 5 14 12 0 0) < utc_instant (at 2024 5 15 9 0 0)"
  by (simp_all add: get_next_birthday_def dt_check_def anna_birthdate_def at_def MAXYEAR_def
      days_in_month_def DAYS_IN_MONTH_def dt_lt_def dt_fields_def is_leap_def timestamp_def
      ymd2ord_def days_before_year_def days_before_month_def DAYS_BEFORE_MONTH_def
      utc_instant_def timedelta_def MOSCOW_UTCOFFSET_def)

lemma leap_muted_facts:
  "select_by_chat (db leap_muted) ''Lea'' 7
     = Some (leap_row\<lparr>remind_3_days := 0, remind_1_day := 0, remind_day := 0\<rparr>)"
  "\<forall>k\<in>set job_kinds. jobs leap_muted (job_id_of 7 ''Lea'' k) = None"
  by (simp_all add: select_by_chat_def leap_muted_def leap_row_def)

lemma retimed_ahead: "utc_instant (at 2025 5 16 9 0 0) < utc_instant (at 2026 5 15 9 0 0)"
  by (simp add: utc_instant_def timestamp_def at_def ymd2ord_def days_before_year_def
      days_before_month_def DAYS_BEFORE_MONTH_def is_leap_def)

subsection \<open>Claims about the next occurrence\<close>

text \<open>
  C1. When the occurrence of the birthday in the current year can be constructed, and the one
  of the following year too in case the first lies strictly before now,
  \<open>get_next_birthday\<close> returns: the current year's occurrence unless that is strictly
  before now, else the following year's. The result is never before now, and no occurrence
  of any year that is not before now precedes it.
\<close>

theorem get_next_birthday_earliest:
  assumes "occurrence b h mi (year now) = Inr c"
    and "dt_lt c now \<Longrightarrow> occurrence b h mi (year now + 1) = Inr c'"
  shows "get_next_birthday now b h mi = Inr (if dt_lt c now then c' else c)
     \<and> \<not> dt_lt (if dt_lt c now then c' else c) now
     \<and> (\<forall>y d. occurrence b h mi y = Inr d \<and> \<not> dt_lt d now
           \<longrightarrow> \<not> dt_lt d (if dt_lt c now then c' else c))"
proof (cases "dt_lt c now")
  case True
  from assms(1) have c: "c = b\<lparr>year := year now, hour := h, minute := mi, second := 0\<rparr>"
    by (rule occurrence_Inr)
  from assms(2) True have o': "occurrence b h mi (year now + 1) = Inr c'" by simp
  then have c': "c' = b\<lparr>year := year now + 1, hour := h, minute := mi, second := 0\<rparr>"
    by (rule occurrence_Inr)
  have ret: "get_next_birthday now b h mi = Inr c'"
    using assms(1) o' True
    by (simp add: get_next_birthday_def occurrence_def c replace_year_again)
  have fut: "\<not> dt_lt c' now"
    by (rule dt_lt_year_greater) (simp add: c')
  have early: "\<not> dt_lt d c'" if d: "occurrence b h mi y = Inr d" and nb: "\<not> dt_lt d now" for y d
  proof -
    from d have dy: "d = b\<lparr>year := y, hour := h, minute := mi, second := 0\<rparr>"
      by (rule occurrence_Inr)
    have "\<not> y < year now" using nb dt_lt_year_less [of d now] by (auto simp: dy)
    moreover have "y \<noteq> year now" using nb True by (auto simp: dy c)
    ultimately have "year c' \<le> year d" by (simp add: dy c')
    then show ?thesis
      by (cases "year c' = year d") (auto simp: dy c' dt_lt_irrefl dt_lt_year_greater)
  qed
  show ?thesis using True ret fut early by auto
next
  case False
  from assms(1) have c: "c = b\<lparr>year := year now, hour := h, minute := mi, second := 0\<rparr>"
    by (rule occurrence_Inr)
  have ret: "get_next_birthday now b h mi = Inr c"
    using assms(1) False by (simp add: get_next_birthday_def occurrence_def)
  have early: "\<not> dt_lt d c" if d: "occurrence b h mi y = Inr d" and nb: "\<not> dt_lt d now" for y d
  proof -
    from d have dy: "d = b\<lparr>year := y, hour := h, minute := mi, second := 0\<rparr>"
      by (rule occurrence_Inr)
    have "\<not> y < year now" using nb dt_lt_year_less [of d now] by (auto simp: dy)
    then have "year c \<le> year d" by (simp add: dy c)
    then show ?thesis
      by (cases "year c = year d") (auto simp: dy c dt_lt_irrefl dt_lt_year_greater)
  qed
  show ?thesis using False ret early by auto
qed

theorem get_next_birthday_earliest_witness:
  "occurrence anna_birthdate 9 0 (year (at 2024 5 20 12 0 0)) = Inr (at 2024 5 15 9 0 0)
   \<and> dt_lt (at 2024 5 15 9 0 0) (at 2024 5 20 12 0 0)
   \<and> occurrence anna_birthdate 9 0 (year (at 2024 5 20 12 0 0) + 1) = Inr (at 2025 5 15 9 0 0)
   \<and> get_next_birthday (at 2024 5 20 12 0 0) anna_birthdate 9 0 = Inr (at 2025 5 15 9 0 0)
   \<and> \<not> dt_lt (at 2025 5 15 9 0 0) (at 2024 5 20 12 0 0)
   \<and> occurrence anna_birthdate 9 0 2026 = Inr (at 2026 5 15 9 0 0)
   \<and> \<not> dt_lt (at 2026 5 15 9 0 0) (at 2024 5 20 12 0 0)
   \<and> \<not> dt_lt (at 2026 5 15 9 0 0) (at 2025 5 15 9 0 0)"
proof -
  have h1: "occurrence anna_birthdate 9 0 (year (at 2024 5 20 12 0 0)) = Inr (at 2024 5 15 9 0 0)"
    by (simp add: occurrence_def dt_check_def anna_birthdate_def at_def MAXYEAR_def
        days_in_month_def DAYS_IN_MONTH_def)
  have h2: "occurrence anna_birthdate 9 0 (year (at 2024 5 20 12 0 0) + 1) = Inr (at 2025 5 15 9 0 0)"
    by (simp add: occurrence_def dt_check_def anna_birthdate_def at_def MAXYEAR_def
        days_in_month_def DAYS_IN_MONTH_def)
  have lt: "dt_lt (at 2024 5 15 9 0 0) (at 2024 5 20 12 0 0)"
    by (simp add: dt_lt_def dt_fields_def at_def)
  have eq: "(if dt_lt (at 2024 5 15 9 0 0) (at 2024 5 20 12 0 0)
              then at 2025 5 15 9 0 0 else at 2024 5 15 9 0 0) = at 2025 5 15 9 0 0"
    using lt by simp
  have h3: "occurrence anna_birthdate 9 0 2026 = Inr (at 2026 5 15 9 0 0)"
    by (simp add: occurrence_def dt_check_def anna_birthdate_def at_def MAXYEAR_def
        days_in_month_def DAYS_IN_MONTH_def)
  have h4: "\<not> dt_lt (at 2026 5 15 9 0 0) (at 2024 5 20 12 0 0)"
    by (simp add: dt_lt_def dt_fields_def at_def)
  from get_next_birthday_earliest [OF h1 h2, unfolded eq] lt h1 h2 h3 h4 show ?thesis
    by blast
qed

text \<open>
  C9. For a birthdate on 29 February, \<open>get_next_birthday\<close> raises \<^verbatim>\<open>ValueError\<close>
  whenever the occurrence it has to build lies in a year that is not a leap year: when the
  current year is not one, and when the current year's occurrence exists but is already
  past, so that the following year is asked for.
\<close>

theorem get_next_birthday_feb29:
  assumes "month b = 2" and "day b = 29"
    and "\<not> is_leap (year now) \<or> (\<exists>c. occurrence b h mi (year now) = Inr c \<and> dt_lt c now)"
  shows "get_next_birthday now b h mi = Inl ValueError"
  using assms(3)
proof
  assume "\<not> is_leap (year now)"
  then have "dt_check (b\<lparr>year := year now, hour := h, minute := mi, second := 0\<rparr>) = Inl ValueError"
    using assms(1,2) by (intro dt_check_feb29) simp_all
  then show ?thesis by (simp add: get_next_birthday_def)
next
  assume "\<exists>c. occurrence b h mi (year now) = Inr c \<and> dt_lt c now"
  then obtain c where oc: "occurrence b h mi (year now) = Inr c" and lt: "dt_lt c now" by blast
  from oc have c: "c = b\<lparr>year := year now, hour := h, minute := mi, second := 0\<rparr>"
    by (rule occurrence_Inr)
  have "is_leap (year now)"
    using dt_check_feb29_leap [of c c] oc assms(1,2) by (simp add: occurrence_def c)
  then have "\<not> is_leap (year now + 1)" by (rule is_leap_next)
  then have "dt_check (c\<lparr>year := year now + 1\<rparr>) = Inl ValueError"
    using assms(1,2) by (intro dt_check_feb29) (simp_all add: c)
  then show ?thesis using oc lt by (simp add: get_next_birthday_def occurrence_def c)
qed

theorem get_next_birthday_feb29_witness:
  "month leap_birthdate = 2 \<and> day leap_birthdate = 29
   \<and> \<not> is_leap (year (at 2025 1 10 12 0 0))
   \<and> get_next_birthday (at 2025 1 10 12 0 0) leap_birthdate 9 0 = Inl ValueError"
proof -
  have m: "month leap_birthdate = 2" and d: "day leap_birthdate = 29"
    by (simp_all add: leap_birthdate_def at_def)
  have nl: "\<not> is_leap (year (at 2025 1 10 12 0 0))"
    by (simp add: is_leap_def at_def)
  from get_next_birthday_feb29 [OF m d disjI1 [OF nl]] m d nl show ?thesis by simp
qed

subsection \<open>Claims about arming\<close>

text \<open>
  C2, as stated, fails on two subscriptions with all three flags enabled. For a birthdate on
  29 February armed on 10 January 2024, the jobs of the three reminders are added and then
  the occurrence of 2025 cannot be constructed: the call raises \<^verbatim>\<open>ValueError\<close> and no
  annual job is registered. For Anna armed on 14 May 2024 at 12:00, less than a day before
  the birthday, the 3-day and the 1-day job are due when the scheduler makes its pass, and
  neither is in the store when the call returns.
\<close>

theorem schedule_reminders_all_flags_counterexample:
  "select_by_chat (db leap_state) ''Lea'' 7 = Some leap_row
   \<and> remind_3_days leap_row = 1 \<and> remind_1_day leap_row = 1 \<and> remind_day leap_row = 1
   \<and> (\<exists>st'. schedule_reminders (at 2024 1 10 12 0 0) leap_state ''Lea'' leap_birthdate 7 (9, 0) None
               = Inl (ValueError, st')
         \<and> jobs st' (job_id_of 7 ''Lea'' ''day_congrats'') \<noteq> None
         \<and> jobs st' (job_id_of 7 ''Lea'' ''annual'') = None)
   \<and> select_by_chat (db anna_state) ''Anna'' 7 = Some anna_row
   \<and> remind_3_days anna_row = 1 \<and> remind_1_day anna_row = 1 \<and> remind_day anna_row = 1
   \<and> (\<exists>st'. schedule_reminders (at 2024 5 14 12 0 0) anna_state ''Anna'' anna_birthdate 7 (9, 0) None
               = Inr st'
         \<and> jobs st' (job_id_of 7 ''Anna'' ''3d'') = None
         \<and> jobs st' (job_id_of 7 ''Anna'' ''1d'') = None
         \<and> jobs st' (job_id_of 7 ''Anna'' ''day_notification'') \<noteq> None)"
proof -
  have rd: "remind_day leap_row \<noteq> 0" by (simp add: leap_row_def)
  have leap: "\<exists>st'. schedule_reminders (at 2024 1 10 12 0 0) leap_state ''Lea'' leap_birthdate 7 (9, 0) None
               = Inl (ValueError, st')
         \<and> jobs st' (job_id_of 7 ''Lea'' ''day_congrats'') \<noteq> None
         \<and> jobs st' (job_id_of 7 ''Lea'' ''annual'') = None"
    unfolding schedule_reminders_no_next_year [OF leap_facts]
    by (simp add: reminder_jobs_congrats [OF rd] reminder_jobs_annual leap_state_def)
  have row: "select_by_chat (db anna_state) ''Anna'' 7 = Some anna_row"
    by (simp add: select_by_chat_def anna_state_def anna_row_def)
  have free: "\<forall>k\<in>set job_kinds. jobs anna_state (job_id_of 7 ''Anna'' k) = None"
    by (simp add: anna_state_def)
  have fl: "remind_3_days anna_row = 1" "remind_1_day anna_row = 1" "remind_day anna_row = 1"
    "remind_3_days leap_row = 1" "remind_1_day leap_row = 1" "remind_day leap_row = 1"
    by (simp_all add: anna_row_def leap_row_def)
  have eve: "\<exists>st'. schedule_reminders (at 2024 5 14 12 0 0) anna_state ''Anna'' anna_birthdate 7 (9, 0) None
               = Inr st'
         \<and> jobs st' (job_id_of 7 ''Anna'' ''3d'') = None
         \<and> jobs st' (job_id_of 7 ''Anna'' ''1d'') = None
         \<and> jobs st' (job_id_of 7 ''Anna'' ''day_notification'') \<noteq> None"
    unfolding schedule_reminders_armed [OF row eve_facts(1) anna_next_year eve_facts(2,3) free]
    using eve_facts(4,5,6)
    by (simp add: armed_jobs_def reminder_jobs_def Let_def take_due_def fl anna_state_def)
  from leap eve row fl leap_facts(1) show ?thesis by simp
qed

text \<open>
  C2, amended. Arming a stored subscription whose three flags are all enabled registers
  exactly the five jobs of the kinds 3d, 1d, day_notification, day_congrats and annual,
  when the next birthday \<open>nb\<close> and the occurrence \<open>ny\<close> of the year after it can be
  constructed, the instant 3 days before \<open>nb\<close> is still ahead of the clock, the year of
  the clock lies between 2 and 9996, and none of the five job ids is pending. The call
  returns normally; the five ids are distinct and hold jobs due at \<open>nb\<close> minus 3 days,
  \<open>nb\<close> minus 1 day, \<open>nb\<close>, \<open>nb\<close> plus 2 seconds and \<open>ny\<close> plus 1 day; every other
  id holds what the scheduler's pass has left of it.
\<close>

theorem schedule_reminders_all_flags:
  assumes row: "select_by_chat (db st) nm chat = Some row"
    and flags: "remind_3_days row \<noteq> 0" "remind_1_day row \<noteq> 0" "remind_day row \<noteq> 0"
    and nb: "get_next_birthday now bd (fst rt) (snd rt) = Inr nb"
    and ny: "dt_check (nb\<lparr>year := year nb + 1\<rparr>) = Inr ny"
    and yr: "2 \<le> year now" "year now \<le> 9996"
    and free: "\<forall>k\<in>set job_kinds. jobs st (job_id_of chat nm k) = None"
    and ahead: "utc_instant now < utc_instant nb - timedelta 3 0"
  shows "\<exists>st'. schedule_reminders now st nm bd chat rt u = Inr st'
     \<and> db st' = db st \<and> sent st' = sent st
     \<and> card (job_id_of chat nm ` set job_kinds) = 5
     \<and> (\<forall>i. i \<notin> job_id_of chat nm ` set job_kinds \<longrightarrow>
            jobs st' i = jobs (process_jobs now st) i)
     \<and> jobs st' (job_id_of chat nm ''3d'') =
         Some \<lparr>run_date = utc_instant nb - timedelta 3 0,
               func = Call_send_reminder chat (ReminderIn3Days nm)\<rparr>
     \<and> jobs st' (job_id_of chat nm ''1d'') =
         Some \<lparr>run_date = utc_instant nb - timedelta 1 0,
               func = Call_send_reminder chat (ReminderTomorrow nm)\<rparr>
     \<and> jobs st' (job_id_of chat nm ''day_notification'') =
         Some \<lparr>run_date = utc_instant nb,
               func = Call_send_birthday_notification chat nm u\<rparr>
     \<and> jobs st' (job_id_of chat nm ''day_congrats'') =
         Some \<lparr>run_date = utc_instant nb + timedelta 0 2,
               func = Call_send_congrats_message chat nm bd (description row)\<rparr>
     \<and> jobs st' (job_id_of chat nm ''annual'') =
         Some \<lparr>run_date = utc_instant ny + timedelta 1 0,
               func = Call_schedule_reminders nm bd chat rt u\<rparr>"
proof -
  let ?t = "utc_instant now"
  let ?st' = "st\<lparr>jobs := armed_jobs ?t (jobs st) row nb ny nm bd chat rt u\<rparr>"
  have run: "schedule_reminders now st nm bd chat rt u = Inr ?st'"
    using row nb ny yr free by (rule schedule_reminders_armed)
  have a1: "?t < utc_instant nb - timedelta 1 0" and a0: "?t < utc_instant nb"
    using ahead by (simp_all add: timedelta_def)
  have other: "\<forall>i. i \<notin> job_id_of chat nm ` set job_kinds \<longrightarrow>
            jobs ?st' i = jobs (process_jobs now st) i"
    by (simp add: armed_jobs_other)
  from run other armed_jobs_3d [OF flags(1) ahead] armed_jobs_1d [OF flags(2) a1]
    armed_jobs_notification [OF flags(3) a0] armed_jobs_congrats [OF flags(3)]
    armed_jobs_annual card_job_ids [of chat nm]
  show ?thesis by simp
qed

theorem schedule_reminders_all_flags_witness:
  "\<exists>st'. schedule_reminders (at 2024 5 10 12 0 0) anna_state ''Anna'' anna_birthdate 7 (9, 0) None
            = Inr st'
     \<and> job_id_of 7 ''Anna'' ''3d'' = ''7_Anna_3d''
     \<and> jobs st' (job_id_of 7 ''Anna'' ''3d'') =
         Some \<lparr>run_date = utc_instant (at 2024 5 12 9 0 0),
               func = Call_send_reminder 7 (ReminderIn3Days ''Anna'')\<rparr>
     \<and> jobs st' (job_id_of 7 ''Anna'' ''1d'') =
         Some \<lparr>run_date = utc_instant (at 2024 5 14 9 0 0),
               func = Call_send_reminder 7 (ReminderTomorrow ''Anna'')\<rparr>
     \<and> jobs st' (job_id_of 7 ''Anna'' ''day_notification'') =
         Some \<lparr>run_date = utc_instant (at 2024 5 15 9 0 0),
               func = Call_send_birthday_notification 7 ''Anna'' None\<rparr>
     \<and> jobs st' (job_id_of 7 ''Anna'' ''day_congrats'') =
         Some \<lparr>run_date = utc_instant (at 2024 5 15 9 0 2),
               func = Call_send_congrats_message 7 ''Anna'' anna_birthdate (Some ''likes cats'')\<rparr>
     \<and> jobs st' (job_id_of 7 ''Anna'' ''annual'') =
         Some \<lparr>run_date = utc_instant (at 2025 5 16 9 0 0),
               func = Call_schedule_reminders ''Anna'' anna_birthdate 7 (9, 0) None\<rparr>"
proof -
  have row: "select_by_chat (db anna_state) ''Anna'' 7 = Some anna_row"
    by (simp add: select_by_chat_def anna_state_def anna_row_def)
  have flags: "remind_3_days anna_row \<noteq> 0" "remind_1_day anna_row \<noteq> 0" "remind_day anna_row \<noteq> 0"
    by (simp_all add: anna_row_def)
  have free: "\<forall>k\<in>set job_kinds. jobs anna_state (job_id_of 7 ''Anna'' k) = None"
    by (simp add: anna_state_def)
  have d: "description anna_row = Some ''likes cats''" by (simp add: anna_row_def)
  have i: "job_id_of 7 ''Anna'' ''3d'' = ''7_Anna_3d''"
    by (simp add: job_id_of_def str_int_def)
  from schedule_reminders_all_flags
    [OF row flags anna_next_birthday anna_next_year anna_years free anna_ahead(1), of None]
  show ?thesis unfolding utc_examples d using i by auto
qed

text \<open>
  C10, as stated, fails: for the subscription with the birthdate on 29 February and all
  three flags disabled, arming on 10 January 2024 raises \<^verbatim>\<open>ValueError\<close> when it builds
  the occurrence of 2025, and the store is left without any job: no annual job is
  registered.
\<close>

theorem schedule_reminders_annual_always_counterexample:
  "select_by_chat (db leap_muted) ''Lea'' 7
     = Some (leap_row\<lparr>remind_3_days := 0, remind_1_day := 0, remind_day := 0\<rparr>)
   \<and> schedule_reminders (at 2024 1 10 12 0 0) leap_muted ''Lea'' leap_birthdate 7 (9, 0) None
       = Inl (ValueError, leap_muted)
   \<and> jobs leap_muted (job_id_of 7 ''Lea'' ''annual'') = None"
proof -
  have "schedule_reminders (at 2024 1 10 12 0 0) leap_muted ''Lea'' leap_birthdate 7 (9, 0) None
       = Inl (ValueError, leap_muted)"
    unfolding schedule_reminders_no_next_year
      [OF leap_muted_facts(1) leap_facts(2,3,4,5) leap_muted_facts(2)]
    by (simp add: reminder_jobs_muted leap_muted_def)
  then show ?thesis using leap_muted_facts(1) by (simp add: leap_muted_def)
qed

text \<open>
  C10, amended. Arming a stored subscription registers the annual job whatever its three
  flags are, when the next birthday and the occurrence of the year after it can be
  constructed, the year of the clock lies between 2 and 9996 and the five job ids are not
  pending: the job is due at that later occurrence plus 1 day and calls
  \<open>schedule_reminders\<close> again. With all three flags disabled it is the only job added,
  and the only one of the subscription that is pending.
\<close>

theorem schedule_reminders_annual_always:
  assumes row: "select_by_chat (db st) nm chat = Some row"
    and nb: "get_next_birthday now bd (fst rt) (snd rt) = Inr nb"
    and ny: "dt_check (nb\<lparr>year := year nb + 1\<rparr>) = Inr ny"
    and yr: "2 \<le> year now" "year now \<le> 9996"
    and free: "\<forall>k\<in>set job_kinds. jobs st (job_id_of chat nm k) = None"
  shows "\<exists>st'. schedule_reminders now st nm bd chat rt u = Inr st'
     \<and> jobs st' (job_id_of chat nm ''annual'') =
         Some \<lparr>run_date = utc_instant ny + timedelta 1 0,
               func = Call_schedule_reminders nm bd chat rt u\<rparr>
     \<and> (remind_3_days row = 0 \<and> remind_1_day row = 0 \<and> remind_day row = 0 \<longrightarrow>
          jobs st' = (jobs (process_jobs now st))(job_id_of chat nm ''annual'' \<mapsto>
                       \<lparr>run_date = utc_instant ny + timedelta 1 0,
                        func = Call_schedule_reminders nm bd chat rt u\<rparr>)
          \<and> {k \<in> set job_kinds. jobs st' (job_id_of chat nm k) \<noteq> None} = {''annual''})"
proof -
  let ?st' = "st\<lparr>jobs := armed_jobs (utc_instant now) (jobs st) row nb ny nm bd chat rt u\<rparr>"
  have run: "schedule_reminders now st nm bd chat rt u = Inr ?st'"
    using row nb ny yr free by (rule schedule_reminders_armed)
  have annual: "jobs ?st' (job_id_of chat nm ''annual'') =
         Some \<lparr>run_date = utc_instant ny + timedelta 1 0,
               func = Call_schedule_reminders nm bd chat rt u\<rparr>"
    by (simp add: armed_jobs_annual)
  have off: "jobs ?st' = (jobs (process_jobs now st))(job_id_of chat nm ''annual'' \<mapsto>
                       \<lparr>run_date = utc_instant ny + timedelta 1 0,
                        func = Call_schedule_reminders nm bd chat rt u\<rparr>)"
    if "remind_3_days row = 0" "remind_1_day row = 0" "remind_day row = 0"
    using that by (simp add: armed_jobs_muted)
  have only: "{k \<in> set job_kinds. jobs ?st' (job_id_of chat nm k) \<noteq> None} = {''annual''}"
    if "remind_3_days row = 0" "remind_1_day row = 0" "remind_day row = 0"
    using free_ids [OF free] by (auto simp: off [OF that] job_kinds_def)
  from run annual off only show ?thesis by auto
qed

theorem schedule_reminders_annual_always_witness:
  "\<exists>st'. schedule_reminders (at 2024 5 10 12 0 0) anna_muted ''Anna'' anna_birthdate 7 (9, 0) None
            = Inr st'
     \<and> jobs st' (job_id_of 7 ''Anna'' ''annual'') =
         Some \<lparr>run_date = utc_instant (at 2025 5 16 9 0 0),
               func = Call_schedule_reminders ''Anna'' anna_birthdate 7 (9, 0) None\<rparr>
     \<and> {k \<in> set job_kinds. jobs st' (job_id_of 7 ''Anna'' k) \<noteq> None} = {''annual''}"
proof -
  let ?row = "anna_row\<lparr>remind_3_days := 0, remind_1_day := 0, remind_day := 0\<rparr>"
  have row: "select_by_chat (db anna_muted) ''Anna'' 7 = Some ?row"
    by (simp add: select_by_chat_def anna_muted_def anna_row_def)
  have free: "\<forall>k\<in>set job_kinds. jobs anna_muted (job_id_of 7 ''Anna'' k) = None"
    by (simp add: anna_muted_def)
  have flags: "remind_3_days ?row = 0 \<and> remind_1_day ?row = 0 \<and> remind_day ?row = 0"
    by simp
  from schedule_reminders_annual_always
    [OF row anna_next_birthday anna_next_year anna_years free, of None] flags
  show ?thesis unfolding utc_examples by blast
qed

subsection \<open>Claims about cancelling\<close>

text \<open>
  C7. Cancelling a job id with no pending job does not raise (the \<^verbatim>\<open>JobLookupError\<close>
  of the scheduler is swallowed) and leaves the state as it was. Removing the reminders of
  a chat and name leaves none of the five job ids pending, touches no other job, row or
  message, and doing it twice gives the same state as doing it once.
\<close>

theorem cancel_missing_and_disarm:
  "(jobs st (job_id_of chat nm kind) = None \<longrightarrow>
       remove_job st (job_id_of chat nm kind) = Inl (JobLookupError, st)
       \<and> remove_specific_reminder st chat nm kind = st)
   \<and> (\<forall>k\<in>set job_kinds. jobs (remove_scheduled_reminders st chat nm) (job_id_of chat nm k) = None)
   \<and> (\<forall>i. i \<notin> job_id_of chat nm ` set job_kinds \<longrightarrow>
          jobs (remove_scheduled_reminders st chat nm) i = jobs st i)
   \<and> db (remove_scheduled_reminders st chat nm) = db st
   \<and> sent (remove_scheduled_reminders st chat nm) = sent st
   \<and> remove_scheduled_reminders (remove_scheduled_reminders st chat nm) chat nm
       = remove_scheduled_reminders st chat nm"
proof -
  have missing: "remove_specific_reminder st chat nm kind = st"
    if "jobs st (job_id_of chat nm kind) = None"
    using that by (simp add: remove_specific_reminder_def remove_quietly_def remove_job_def)
  have raise: "remove_job st (job_id_of chat nm kind) = Inl (JobLookupError, st)"
    if "jobs st (job_id_of chat nm kind) = None"
    using that by (simp add: remove_job_def)
  have idem: "remove_scheduled_reminders (remove_scheduled_reminders st chat nm) chat nm
       = remove_scheduled_reminders st chat nm"
    by (simp add: remove_scheduled_reminders_jobs [of "st\<lparr>jobs := f\<rparr>" for f]
        remove_scheduled_reminders_jobs [of st] cong: if_cong)
  from missing raise idem show ?thesis
    by (simp add: remove_scheduled_reminders_jobs [of st])
qed

theorem cancel_missing_and_disarm_witness:
  "jobs anna_state (job_id_of 7 ''Anna'' ''3d'') = None
   \<and> remove_job anna_state (job_id_of 7 ''Anna'' ''3d'') = Inl (JobLookupError, anna_state)
   \<and> remove_specific_reminder anna_state 7 ''Anna'' ''3d'' = anna_state
   \<and> jobs anna_armed (job_id_of 7 ''Anna'' ''annual'') \<noteq> None
   \<and> jobs (remove_scheduled_reminders anna_armed 7 ''Anna'') (job_id_of 7 ''Anna'' ''annual'') = None
   \<and> remove_scheduled_reminders (remove_scheduled_reminders anna_armed 7 ''Anna'') 7 ''Anna''
       = remove_scheduled_reminders anna_armed 7 ''Anna''"
proof -
  have none: "jobs anna_state (job_id_of 7 ''Anna'' ''3d'') = None"
    by (simp add: anna_state_def)
  have pending: "jobs anna_armed (job_id_of 7 ''Anna'' ''annual'') \<noteq> None"
    by (simp add: anna_armed_jobs)
  have kind: "''annual'' \<in> set job_kinds" by (simp add: job_kinds_def)
  from cancel_missing_and_disarm [of anna_state 7 "''Anna''" "''3d''"]
    cancel_missing_and_disarm [of anna_armed 7 "''Anna''" "''3d''"] none pending kind
  show ?thesis by blast
qed

subsection \<open>Claims about replacing a pending job\<close>

text \<open>
  C3, as stated, fails: \<open>add_job\<close> on an id that is pending raises
  \<^verbatim>\<open>ConflictingIdError\<close>. In the state reached by arming Anna's subscription on
  10 May 2024, scheduling the 3-day job again for 10:30 raises and the pending job keeps its
  due instant of 09:00; arming the subscription a second time, for 10:30, raises in the same
  way and the 3-day job of 09:00 is still the pending one.
\<close>

theorem add_job_conflict_counterexample:
  "schedule_reminders (at 2024 5 10 12 0 0) anna_state ''Anna'' anna_birthdate 7 (9, 0) None
     = Inr anna_armed
   \<and> jobs anna_armed (job_id_of 7 ''Anna'' ''3d'') =
     Some \<lparr>run_date = utc_instant (at 2024 5 12 9 0 0),
           func = Call_send_reminder 7 (ReminderIn3Days ''Anna'')\<rparr>
   \<and> add_job anna_armed (job_id_of 7 ''Anna'' ''3d'')
        \<lparr>run_date = utc_instant (at 2024 5 12 10 30 0),
         func = Call_send_reminder 7 (ReminderIn3Days ''Anna'')\<rparr>
       = Inl (ConflictingIdError, anna_armed)
   \<and> utc_instant (at 2024 5 12 9 0 0) \<noteq> utc_instant (at 2024 5 12 10 30 0)
   \<and> schedule_reminders (at 2024 5 10 13 0 0) anna_armed ''Anna'' anna_birthdate 7 (10, 30) None
       = Inl (ConflictingIdError, process_jobs (at 2024 5 10 13 0 0) anna_armed)
   \<and> jobs (process_jobs (at 2024 5 10 13 0 0) anna_armed) (job_id_of 7 ''Anna'' ''3d'') =
     Some \<lparr>run_date = utc_instant (at 2024 5 12 9 0 0),
           func = Call_send_reminder 7 (ReminderIn3Days ''Anna'')\<rparr>"
proof -
  note j = anna_armed_jobs(1)
  have a: "add_job anna_armed (job_id_of 7 ''Anna'' ''3d'')
        \<lparr>run_date = utc_instant (at 2024 5 12 10 30 0),
         func = Call_send_reminder 7 (ReminderIn3Days ''Anna'')\<rparr>
       = Inl (ConflictingIdError, anna_armed)"
    by (simp add: add_job_def j)
  have row: "select_by_chat (db anna_armed) ''Anna'' 7 = Some anna_row"
    by (simp add: select_by_chat_def anna_armed_def anna_state_def anna_row_def)
  have nb: "get_next_birthday (at 2024 5 10 13 0 0) anna_birthdate 10 30 = Inr (at 2024 5 15 10 30 0)"
    by (simp add: get_next_birthday_def dt_check_def anna_birthdate_def at_def MAXYEAR_def
        days_in_month_def DAYS_IN_MONTH_def dt_lt_def dt_fields_def)
  have sh: "dt_sub (timestamp (at 2024 5 15 10 30 0)) (timedelta 3 0)
              = Inr (timestamp (at 2024 5 15 10 30 0) - timedelta 3 0)"
    "astimezone_utc (timestamp (at 2024 5 15 10 30 0) - timedelta 3 0)
       = Inr (timestamp (at 2024 5 15 10 30 0) - MOSCOW_UTCOFFSET - timedelta 3 0)"
    by (rule shifts_ok;
        simp add: timestamp_def at_def ymd2ord_def days_before_year_def days_before_month_def
          DAYS_BEFORE_MONTH_def is_leap_def DAY_US_def)+
  have p: "jobs (process_jobs (at 2024 5 10 13 0 0) anna_armed) (job_id_of 7 ''Anna'' ''3d'') =
     Some \<lparr>run_date = utc_instant (at 2024 5 12 9 0 0),
           func = Call_send_reminder 7 (ReminderIn3Days ''Anna'')\<rparr>"
    using j anna_ahead(2) by (simp add: take_due_def)
  have s: "schedule_reminders (at 2024 5 10 13 0 0) anna_armed ''Anna'' anna_birthdate 7 (10, 30) None
       = Inl (ConflictingIdError, process_jobs (at 2024 5 10 13 0 0) anna_armed)"
    unfolding schedule_reminders_def
    by (simp add: row nb sh try_pure_def and_then_def add_job_def p [unfolded process_jobs_simps]
        anna_row_def Let_def)
  have ne: "utc_instant (at 2024 5 12 9 0 0) \<noteq> utc_instant (at 2024 5 12 10 30 0)"
    by (simp add: utc_instant_def timestamp_def at_def)
  from anna_armed_reached j a s p ne show ?thesis by simp
qed

text \<open>
  C3, amended. The job store holds at most one job per id. Scheduling under an id that is
  pending raises \<^verbatim>\<open>ConflictingIdError\<close> and leaves the state as it was: the id still
  holds exactly one job, the one of the first call with its due instant. Under a free id
  the job is added, and scheduling under an id right after cancelling it leaves the job of
  the second call under it. Accordingly, arming a subscription whose row is stored under
  the chat, with the 3-day flag set, a next birthday that can be constructed and the year
  of the clock between 2 and 9996, while its 3-day job is pending and not yet due, raises
  \<^verbatim>\<open>ConflictingIdError\<close>, and that job is still pending afterwards.
\<close>

theorem add_job_conflict_keeps_first:
  "(jobs st i = Some j \<longrightarrow> add_job st i j' = Inl (ConflictingIdError, st))
   \<and> (jobs st i = None \<longrightarrow> add_job st i j' = Inr (st\<lparr>jobs := (jobs st)(i \<mapsto> j')\<rparr>))
   \<and> add_job (remove_quietly i st) i j' = Inr (st\<lparr>jobs := (jobs st)(i \<mapsto> j')\<rparr>)
   \<and> (select_by_chat (db st) nm chat = Some row \<and> remind_3_days row \<noteq> 0
        \<and> get_next_birthday now bd (fst rt) (snd rt) = Inr nb
        \<and> 2 \<le> year now \<and> year now \<le> 9996
        \<and> jobs st (job_id_of chat nm ''3d'') = Some j \<and> utc_instant now < run_date j \<longrightarrow>
        schedule_reminders now st nm bd chat rt u
          = Inl (ConflictingIdError, process_jobs now st)
        \<and> jobs (process_jobs now st) (job_id_of chat nm ''3d'') = Some j)"
proof -
  have conflict: "add_job st i j' = Inl (ConflictingIdError, st)" if "jobs st i = Some j"
    using that by (simp add: add_job_def)
  have fresh: "add_job st i j' = Inr (st\<lparr>jobs := (jobs st)(i \<mapsto> j')\<rparr>)" if "jobs st i = None"
    using that by (simp add: add_job_def)
  have replace: "add_job (remove_quietly i st) i j' = Inr (st\<lparr>jobs := (jobs st)(i \<mapsto> j')\<rparr>)"
    by (simp add: add_job_def remove_quietly_jobs)
  have again: "schedule_reminders now st nm bd chat rt u
          = Inl (ConflictingIdError, process_jobs now st)
        \<and> jobs (process_jobs now st) (job_id_of chat nm ''3d'') = Some j"
    if row: "select_by_chat (db st) nm chat = Some row" and flag: "remind_3_days row \<noteq> 0"
      and nb: "get_next_birthday now bd (fst rt) (snd rt) = Inr nb"
      and yr: "2 \<le> year now" "year now \<le> 9996"
      and pending: "jobs st (job_id_of chat nm ''3d'') = Some j"
      and ahead: "utc_instant now < run_date j"
  proof -
    from get_next_birthday_checked [OF nb] yr
    have cnb: "dt_check nb = Inr nb" and ynb: "2 \<le> year nb" "year nb \<le> 9997" by auto
    from timestamp_bounds [OF cnb] ynb
    have bnb: "366 * DAY_US \<le> timestamp nb" "timestamp nb < 3651771 * DAY_US" by simp_all
    note s1 = shifts_ok [OF bnb]
    have p: "jobs (process_jobs now st) (job_id_of chat nm ''3d'') = Some j"
      using pending ahead by (simp add: take_due_def)
    have "schedule_reminders now st nm bd chat rt u
          = Inl (ConflictingIdError, process_jobs now st)"
      unfolding schedule_reminders_def
      by (simp add: row nb s1 flag try_pure_def and_then_def add_job_def
          p [unfolded process_jobs_simps] Let_def)
    with p show ?thesis by simp
  qed
  from conflict fresh replace again show ?thesis by blast
qed

theorem add_job_conflict_keeps_first_witness:
  "jobs anna_armed (job_id_of 7 ''Anna'' ''3d'') =
     Some \<lparr>run_date = utc_instant (at 2024 5 12 9 0 0),
           func = Call_send_reminder 7 (ReminderIn3Days ''Anna'')\<rparr>
   \<and> add_job anna_armed (job_id_of 7 ''Anna'' ''3d'')
        \<lparr>run_date = utc_instant (at 2024 5 12 10 30 0),
         func = Call_send_reminder 7 (ReminderIn3Days ''Anna'')\<rparr>
       = Inl (ConflictingIdError, anna_armed)
   \<and> add_job (remove_quietly (job_id_of 7 ''Anna'' ''3d'') anna_armed) (job_id_of 7 ''Anna'' ''3d'')
        \<lparr>run_date = utc_instant (at 2024 5 12 10 30 0),
         func = Call_send_reminder 7 (ReminderIn3Days ''Anna'')\<rparr>
       = Inr (anna_armed\<lparr>jobs := (jobs anna_armed)(job_id_of 7 ''Anna'' ''3d'' \<mapsto>
               \<lparr>run_date = utc_instant (at 2024 5 12 10 30 0),
                func = Call_send_reminder 7 (ReminderIn3Days ''Anna'')\<rparr>)\<rparr>)
   \<and> schedule_reminders (at 2024 5 10 13 0 0) anna_armed ''Anna'' anna_birthdate 7 (10, 30) None
       = Inl (ConflictingIdError, process_jobs (at 2024 5 10 13 0 0) anna_armed)"
proof -
  note j = anna_armed_jobs(1)
  have row: "select_by_chat (db anna_armed) ''Anna'' 7 = Some anna_row"
    by (simp add: select_by_chat_def anna_armed_def anna_state_def anna_row_def)
  have flag: "remind_3_days anna_row \<noteq> 0" by (simp add: anna_row_def)
  have nb: "get_next_birthday (at 2024 5 10 13 0 0) anna_birthdate (fst (10, 30)) (snd (10, 30))
              = Inr (at 2024 5 15 10 30 0)"
    by (simp add: get_next_birthday_def dt_check_def anna_birthdate_def at_def MAXYEAR_def
        days_in_month_def DAYS_IN_MONTH_def dt_lt_def dt_fields_def)
  have yr: "2 \<le> year (at 2024 5 10 13 0 0)" "year (at 2024 5 10 13 0 0) \<le> 9996"
    by (simp_all add: at_def)
  have ahead: "utc_instant (at 2024 5 10 13 0 0)
      < run_date \<lparr>run_date = utc_instant (at 2024 5 12 9 0 0),
                  func = Call_send_reminder 7 (ReminderIn3Days ''Anna'')\<rparr>"
    using anna_ahead(2) by simp
  from add_job_conflict_keeps_first [of anna_armed "job_id_of 7 ''Anna'' ''3d''"
      "\<lparr>run_date = utc_instant (at 2024 5 12 9 0 0),
        func = Call_send_reminder 7 (ReminderIn3Days ''Anna'')\<rparr>"
      "\<lparr>run_date = utc_instant (at 2024 5 12 10 30 0),
        func = Call_send_reminder 7 (ReminderIn3Days ''Anna'')\<rparr>"
      "''Anna''" 7 anna_row "at 2024 5 10 13 0 0" anna_birthdate "(10, 30)"
      "at 2024 5 15 10 30 0" None] j row flag nb yr ahead
  show ?thesis by blast
qed

subsection \<open>Claims about deleting a subscription\<close>




subsection \<open>Claims about what the jobs read when they fire\<close>

text \<open>
  C5, as stated, fails: the annual job does not read the reminder time from the store. With
  10:30 stored for Anna and an annual job that was armed with 09:00, the job fired on
  16 May 2025 arms the birthday notification for 15 May 2026 at 09:00, not at 10:30.
\<close>

theorem annual_job_uses_captured_time_counterexample:
  "select_by_chat (db anna_retimed) ''Anna'' 7 = Some (anna_row\<lparr>reminder_time := (10, 30)\<rparr>)
   \<and> (\<exists>st'. call_job (at 2025 5 16 9 0 0) anna_retimed
               (Call_schedule_reminders ''Anna'' anna_birthdate 7 (9, 0) None) = Inr st'
         \<and> jobs st' (job_id_of 7 ''Anna'' ''day_notification'') =
             Some \<lparr>run_date = utc_instant (at 2026 5 15 9 0 0),
                   func = Call_send_birthday_notification 7 ''Anna'' None\<rparr>)
   \<and> utc_instant (at 2026 5 15 9 0 0) \<noteq> utc_instant (at 2026 5 15 10 30 0)"
proof -
  have ne: "utc_instant (at 2026 5 15 9 0 0) \<noteq> utc_instant (at 2026 5 15 10 30 0)"
    by (simp add: utc_instant_def timestamp_def at_def)
  have day: "remind_day (anna_row\<lparr>reminder_time := (10, 30)\<rparr>) \<noteq> 0"
    by (simp add: anna_row_def)
  from schedule_reminders_armed
    [OF retimed_row retimed_next_birthday retimed_next_year retimed_years retimed_free, of None]
    retimed_row ne armed_jobs_notification [OF day retimed_ahead]
  show ?thesis by simp
qed

text \<open>
  C5, amended. The annual job is due at the following year's occurrence plus 1 day and calls
  \<open>schedule_reminders\<close> with the name, birthdate, chat, reminder time and username it was
  armed with. Fired (when the dates can be constructed and the five ids are free) it arms
  from the flags the store holds at that moment and from the reminder time of its own
  arguments: changing the stored reminder time does not change the jobs it arms, changing
  the stored flags does. The annual job it registers carries the same arguments again.
\<close>

theorem annual_job_rearms_with_captured_time:
  assumes row: "select_by_chat (db st) nm chat = Some row"
    and nb: "get_next_birthday now bd (fst rt) (snd rt) = Inr nb"
    and ny: "dt_check (nb\<lparr>year := year nb + 1\<rparr>) = Inr ny"
    and yr: "2 \<le> year now" "year now \<le> 9996"
    and free: "\<forall>k\<in>set job_kinds. jobs st (job_id_of chat nm k) = None"
  shows "call_job now st (Call_schedule_reminders nm bd chat rt u)
           = Inr (st\<lparr>jobs := armed_jobs (utc_instant now) (jobs st) row nb ny nm bd chat rt u\<rparr>)
     \<and> armed_jobs (utc_instant now) (jobs st) row nb ny nm bd chat rt u (job_id_of chat nm ''annual'') =
         Some \<lparr>run_date = utc_instant ny + timedelta 1 0,
               func = Call_schedule_reminders nm bd chat rt u\<rparr>
     \<and> (\<forall>user' nm' rt'. \<exists>st'.
           call_job now (update_time st user' nm' rt') (Call_schedule_reminders nm bd chat rt u)
             = Inr st'
           \<and> jobs st' = armed_jobs (utc_instant now) (jobs st) row nb ny nm bd chat rt u)
     \<and> (\<forall>r3 r1 rd. \<exists>st'.
           call_job now (update_flags st (user_id row) nm r3 r1 rd)
               (Call_schedule_reminders nm bd chat rt u)
             = Inr st'
           \<and> jobs st' = armed_jobs (utc_instant now) (jobs st)
                          (row\<lparr>remind_3_days := r3, remind_1_day := r1, remind_day := rd\<rparr>)
                          nb ny nm bd chat rt u)"
proof -
  have run: "call_job now st (Call_schedule_reminders nm bd chat rt u)
           = Inr (st\<lparr>jobs := armed_jobs (utc_instant now) (jobs st) row nb ny nm bd chat rt u\<rparr>)"
    using schedule_reminders_armed [OF row nb ny yr free] by simp
  have annual: "armed_jobs (utc_instant now) (jobs st) row nb ny nm bd chat rt u (job_id_of chat nm ''annual'') =
         Some \<lparr>run_date = utc_instant ny + timedelta 1 0,
               func = Call_schedule_reminders nm bd chat rt u\<rparr>"
    by (rule armed_jobs_annual)
  have time: "\<exists>st'.
           call_job now (update_time st user' nm' rt') (Call_schedule_reminders nm bd chat rt u)
             = Inr st'
           \<and> jobs st' = armed_jobs (utc_instant now) (jobs st) row nb ny nm bd chat rt u" for user' nm' rt'
  proof -
    let ?st = "update_time st user' nm' rt'"
    let ?row = "if name row = nm' \<and> user_id row = user' then row\<lparr>reminder_time := rt'\<rparr> else row"
    have r: "select_by_chat (db ?st) nm chat = Some ?row"
      by (simp add: select_by_chat_update_time row)
    have j: "jobs ?st = jobs st" by (simp add: update_time_def)
    have f: "\<forall>k\<in>set job_kinds. jobs ?st (job_id_of chat nm k) = None"
      using free by (simp add: j)
    from schedule_reminders_armed [OF r nb ny yr f, of u] show ?thesis
      by (simp add: j)
  qed
  have flags: "\<exists>st'.
           call_job now (update_flags st (user_id row) nm r3 r1 rd)
               (Call_schedule_reminders nm bd chat rt u)
             = Inr st'
           \<and> jobs st' = armed_jobs (utc_instant now) (jobs st)
                          (row\<lparr>remind_3_days := r3, remind_1_day := r1, remind_day := rd\<rparr>)
                          nb ny nm bd chat rt u" for r3 r1 rd
  proof -
    let ?st = "update_flags st (user_id row) nm r3 r1 rd"
    have r: "select_by_chat (db ?st) nm chat
               = Some (row\<lparr>remind_3_days := r3, remind_1_day := r1, remind_day := rd\<rparr>)"
      by (simp add: select_by_chat_update_flags row select_by_chat_name [OF row])
    have j: "jobs ?st = jobs st" by (simp add: update_flags_def)
    have f: "\<forall>k\<in>set job_kinds. jobs ?st (job_id_of chat nm k) = None"
      using free by (simp add: j)
    from schedule_reminders_armed [OF r nb ny yr f, of u] show ?thesis
      by (simp add: j)
  qed
  from run annual time flags show ?thesis by blast
qed

theorem annual_job_rearms_with_captured_time_witness:
  "call_job (at 2025 5 16 9 0 0) anna_retimed
       (Call_schedule_reminders ''Anna'' anna_birthdate 7 (9, 0) None)
     = Inr (anna_retimed\<lparr>jobs :=
              armed_jobs (utc_instant (at 2025 5 16 9 0 0)) (jobs anna_retimed) (anna_row\<lparr>reminder_time := (10, 30)\<rparr>)
                (at 2026 5 15 9 0 0) (at 2027 5 15 9 0 0) ''Anna'' anna_birthdate 7 (9, 0) None\<rparr>)
   \<and> armed_jobs (utc_instant (at 2025 5 16 9 0 0)) (jobs anna_retimed) (anna_row\<lparr>reminder_time := (10, 30)\<rparr>)
        (at 2026 5 15 9 0 0) (at 2027 5 15 9 0 0) ''Anna'' anna_birthdate 7 (9, 0) None
        (job_id_of 7 ''Anna'' ''annual'') =
         Some \<lparr>run_date = utc_instant (at 2027 5 15 9 0 0) + timedelta 1 0,
               func = Call_schedule_reminders ''Anna'' anna_birthdate 7 (9, 0) None\<rparr>"
  using annual_job_rearms_with_captured_time
    [OF retimed_row retimed_next_birthday retimed_next_year retimed_years retimed_free, of None]
  by blast

text \<open>
  C8, as stated, fails: the congratulation job does not read the description when it
  fires. With the description ``likes dogs'' stored for Anna and a congratulation job armed
  when it was ``likes cats'', the job sends the congratulation composed from ``likes cats''.
\<close>

theorem congrats_uses_captured_description_counterexample:
  "select_by_chat (db anna_redescribed) ''Anna'' 7
     = Some (anna_row\<lparr>description := Some ''likes dogs''\<rparr>)
   \<and> jobs anna_redescribed (job_id_of 7 ''Anna'' ''day_congrats'') =
       Some \<lparr>run_date = utc_instant (at 2024 5 15 9 0 2),
             func = Call_send_congrats_message 7 ''Anna'' anna_birthdate (Some ''likes cats'')\<rparr>
   \<and> call_job (at 2024 5 15 9 0 2) anna_redescribed
        (Call_send_congrats_message 7 ''Anna'' anna_birthdate (Some ''likes cats''))
       = Inr (anna_redescribed
               \<lparr>sent := [(7, Congrats ''Anna'' anna_birthdate (Some ''likes cats''))]\<rparr>)"
  using anna_armed_jobs(2)
  by (simp add: anna_redescribed_def anna_armed_def anna_state_def anna_row_def
      select_by_chat_def send_message_def)

text \<open>
  C8, amended. The description is read from the store when the subscription is armed and
  kept in the arguments of the congratulation job, which is due 2 seconds after the next
  birthday. When the job fires, whatever the store then holds, the message sent is the one
  composed from the name, the birthdate and that description.
\<close>

theorem congrats_description_read_when_armed:
  assumes row: "select_by_chat (db st) nm chat = Some row"
    and day: "remind_day row \<noteq> 0"
    and nb: "get_next_birthday now bd (fst rt) (snd rt) = Inr nb"
    and ny: "dt_check (nb\<lparr>year := year nb + 1\<rparr>) = Inr ny"
    and yr: "2 \<le> year now" "year now \<le> 9996"
    and free: "\<forall>k\<in>set job_kinds. jobs st (job_id_of chat nm k) = None"
  shows "\<exists>st'. schedule_reminders now st nm bd chat rt u = Inr st'
     \<and> jobs st' (job_id_of chat nm ''day_congrats'') =
         Some \<lparr>run_date = utc_instant nb + timedelta 0 2,
               func = Call_send_congrats_message chat nm bd (description row)\<rparr>
     \<and> (\<forall>now' st''. call_job now' st'' (Call_send_congrats_message chat nm bd (description row))
           = Inr (st''\<lparr>sent := sent st'' @ [(chat, Congrats nm bd (description row))]\<rparr>))"
  using schedule_reminders_armed [OF row nb ny yr free, of u] armed_jobs_congrats [OF day]
  by (simp add: send_message_def)

theorem congrats_description_read_when_armed_witness:
  "\<exists>st'. schedule_reminders (at 2024 5 10 12 0 0) anna_state ''Anna'' anna_birthdate 7 (9, 0) None
            = Inr st'
     \<and> jobs st' (job_id_of 7 ''Anna'' ''day_congrats'') =
         Some \<lparr>run_date = utc_instant (at 2024 5 15 9 0 2),
               func = Call_send_congrats_message 7 ''Anna'' anna_birthdate (Some ''likes cats'')\<rparr>
     \<and> call_job (at 2024 5 15 9 0 2) anna_redescribed
          (Call_send_congrats_message 7 ''Anna'' anna_birthdate (Some ''likes cats''))
         = Inr (anna_redescribed
                 \<lparr>sent := sent anna_redescribed
                           @ [(7, Congrats ''Anna'' anna_birthdate (Some ''likes cats''))]\<rparr>)"
proof -
  have row: "select_by_chat (db anna_state) ''Anna'' 7 = Some anna_row"
    by (simp add: select_by_chat_def anna_state_def anna_row_def)
  have day: "remind_day anna_row \<noteq> 0" by (simp add: anna_row_def)
  have free: "\<forall>k\<in>set job_kinds. jobs anna_state (job_id_of 7 ''Anna'' k) = None"
    by (simp add: anna_state_def)
  have d: "description anna_row = Some ''likes cats''" by (simp add: anna_row_def)
  from congrats_description_read_when_armed
    [OF row day anna_next_birthday anna_next_year anna_years free, of None]
  show ?thesis unfolding d utc_examples by blast
qed

subsection \<open>Claims about editing the reminder flags\<close>

text \<open>
  C6 on the code: a subscription armed with the 3-day flag disabled has no 3-day job;
  when the user then enables all reminders, the row gets the flag but the job store is left
  as it was, so no 3-day job is scheduled.
\<close>

theorem reenabled_flag_not_rescheduled:
  "schedule_reminders (at 2024 5 10 12 0 0) \<lparr>db = [anna_no3d_row], jobs = Map.empty, sent = []\<rparr>
       ''Anna'' anna_birthdate 7 (9, 0) None
     = Inr anna_no3d
   \<and> jobs anna_no3d (job_id_of 7 ''Anna'' ''3d'') = None
   \<and> db (process_settings_value_reminders anna_no3d 7 7 ''Anna'' EnableAll) = [anna_row]
   \<and> remind_3_days anna_row = 1
   \<and> jobs (process_settings_value_reminders anna_no3d 7 7 ''Anna'' EnableAll) = jobs anna_no3d
   \<and> jobs (process_settings_value_reminders anna_no3d 7 7 ''Anna'' EnableAll)
        (job_id_of 7 ''Anna'' ''3d'') = None"
proof -
  let ?st = "\<lparr>db = [anna_no3d_row], jobs = Map.empty, sent = []\<rparr>"
  have row: "select_by_chat (db ?st) ''Anna'' 7 = Some anna_no3d_row"
    by (simp add: select_by_chat_def anna_no3d_row_def anna_row_def)
  have free: "\<forall>k\<in>set job_kinds. jobs ?st (job_id_of 7 ''Anna'' k) = None"
    by simp
  have armed: "schedule_reminders (at 2024 5 10 12 0 0) ?st ''Anna'' anna_birthdate 7 (9, 0) None
     = Inr anna_no3d"
    using schedule_reminders_armed [OF row anna_next_birthday anna_next_year anna_years free, of None]
    by (simp add: anna_no3d_def)
  have none: "jobs anna_no3d (job_id_of 7 ''Anna'' ''3d'') = None"
    by (simp add: anna_no3d_def armed_jobs_def reminder_jobs_def Let_def anna_no3d_row_def
        anna_row_def)
  have dbs: "db (process_settings_value_reminders anna_no3d 7 7 ''Anna'' EnableAll) = [anna_row]"
    by (simp add: process_settings_value_reminders_def update_flags_def anna_no3d_def
        anna_no3d_row_def anna_row_def)
  have same: "jobs (process_settings_value_reminders anna_no3d 7 7 ''Anna'' EnableAll)
                = jobs anna_no3d"
    by (simp add: process_settings_value_reminders_def update_flags_def)
  have flag: "remind_3_days anna_row = 1" by (simp add: anna_row_def)
  from armed none dbs same flag show ?thesis by simp
qed

end
